theory Spec2Isabelle
  imports Main "HOL-Library.Sublist"
begin

section \<open>Strings, truthiness and the three regular expressions\<close>

text \<open>
  The plugin under verification is the Babel plugin of \<^verbatim>\<open>packages/react/src/index.ts\<close>
  (second part of the file: \<^verbatim>\<open>pre\<close>, \<^verbatim>\<open>Program.enter\<close>, \<^verbatim>\<open>Program.exit\<close>,
  \<^verbatim>\<open>ImportDeclaration\<close>, the call/tagged-template visitor and the two JSX visitors).
  Module specifiers, names and paths are modelled as \<^typ>\<open>string\<close>; \<^verbatim>\<open>undefined\<close> is
  \<^const>\<open>None\<close>.
\<close>

definition DEFAULT_IMPORT_SOURCE :: string where
  "DEFAULT_IMPORT_SOURCE = ''@compiled/react''"

text \<open>\<^verbatim>\<open>s[0] === '.'\<close>: false on the empty string, whose \<^verbatim>\<open>[0]\<close> is undefined.\<close>

definition firstCharIsDot :: "string \<Rightarrow> bool" where
  "firstCharIsDot s = (case s of [] \<Rightarrow> False | c # _ \<Rightarrow> c = CHR ''.'')"

text \<open>\<^verbatim>\<open>s.endsWith(x)\<close>.\<close>

definition endsWith :: "string \<Rightarrow> string \<Rightarrow> bool" where
  "endsWith s x = suffix x s"

text \<open>Truthiness of a value of type \<^verbatim>\<open>string | undefined\<close>: undefined and '' are falsy.\<close>

definition truthy :: "string option \<Rightarrow> bool" where
  "truthy v = (case v of None \<Rightarrow> False | Some s \<Rightarrow> s \<noteq> [])"

text \<open>
  The text of a comment is searched with regular expressions whose class \<^verbatim>\<open>\s\<close> reaches
  beyond ASCII, so a comment is the list of its UTF-16 code units, each a number.
  \<open>units\<close> turns a literal into code units.
\<close>

type_synonym codeUnit = nat

definition units :: "string \<Rightarrow> codeUnit list" where
  "units s = map of_char s"

text \<open>
  The class \<^verbatim>\<open>\s\<close> of a JavaScript regular expression: the white space code points
  (tab, vertical tab, form feed, space, no-break space, U+1680, U+2000 to U+200A,
  U+202F, U+205F, U+3000, U+FEFF) and the line terminators (line feed, carriage return,
  U+2028, U+2029). \<^verbatim>\<open>[^\s]\<close> is its complement.
\<close>

definition isSpace :: "codeUnit \<Rightarrow> bool" where
  "isSpace c =
     (c \<in> set [0x09, 0x0A, 0x0B, 0x0C, 0x0D, 0x20, 0xA0, 0x1680, 0x2028, 0x2029, 0x202F,
               0x205F, 0x3000, 0xFEFF]
      \<or> (0x2000 \<le> c \<and> c \<le> 0x200A))"

text \<open>
  One attempt of \<^verbatim>\<open>/\*?\s*KW\s+([^\s]+)/\<close> at the start of \<open>s\<close>, returning capture group 1
  (\<open>0x2A\<close> is the asterisk). Every quantifier is greedy and none can succeed after
  giving a code unit back (the one that follows each of them in the pattern is outside
  its class), so the greedy run is the whole search at this position.
\<close>

definition annotationAt :: "codeUnit list \<Rightarrow> codeUnit list \<Rightarrow> codeUnit list option" where
  "annotationAt kw s =
     (let s1 = (case s of [] \<Rightarrow> s | c # r \<Rightarrow> if c = 0x2A then r else s);
          s2 = dropWhile isSpace s1
      in if prefix kw s2 then
           (case drop (length kw) s2 of
              [] \<Rightarrow> None
            | c # r \<Rightarrow>
                if isSpace c then
                  (let cap = takeWhile (\<lambda>d. \<not> isSpace d) (dropWhile isSpace r)
                   in if cap = [] then None else Some cap)
                else None)
         else None)"

text \<open>\<^verbatim>\<open>RegExp.prototype.exec\<close> without the global flag: the leftmost start that matches.\<close>

fun regexExec :: "codeUnit list \<Rightarrow> codeUnit list \<Rightarrow> codeUnit list option" where
  "regexExec kw [] = annotationAt kw []"
| "regexExec kw (c # r) =
     (case annotationAt kw (c # r) of
        Some cap \<Rightarrow> Some cap
      | None \<Rightarrow> regexExec kw r)"

text \<open>\<^verbatim>\<open>JSX_SOURCE_ANNOTATION_REGEX = /\*?\s*@jsxImportSource\s+([^\s]+)/\<close>, group 1.\<close>

definition JSX_SOURCE_ANNOTATION_REGEX :: "codeUnit list \<Rightarrow> codeUnit list option" where
  "JSX_SOURCE_ANNOTATION_REGEX = regexExec (units ''@jsxImportSource'')"

text \<open>\<^verbatim>\<open>JSX_ANNOTATION_REGEX = /\*?\s*@jsx\s+([^\s]+)/\<close>, group 1.\<close>

definition JSX_ANNOTATION_REGEX :: "codeUnit list \<Rightarrow> codeUnit list option" where
  "JSX_ANNOTATION_REGEX = regexExec (units ''@jsx'')"

text \<open>\<^verbatim>\<open>/(x|X)css={/.test(code)\<close>: one of the two literal spellings occurs in the text.\<close>

definition xcssRegexTest :: "string \<Rightarrow> bool" where
  "xcssRegexTest code = (sublist ''xcss={'' code \<or> sublist ''Xcss={'' code)"

section \<open>Node's path module\<close>

text \<open>
  The four functions the plugin imports from \<^verbatim>\<open>path\<close> are parameters of the model.
\<close>

record pathlib =
  basename :: "string \<Rightarrow> string"
  dirname :: "string \<Rightarrow> string"
  resolve :: "string \<Rightarrow> string \<Rightarrow> string"
  join :: "string \<Rightarrow> string \<Rightarrow> string"

section \<open>Options, plugin state and the module-level cache variable\<close>

datatype resolverOption = ResolverObject nat | ResolverModule string

text \<open>
  The options. \<^verbatim>\<open>pre\<close> reads \<^verbatim>\<open>root\<close> from the options of the file it is given
  (\<^verbatim>\<open>state.opts.root\<close>) and everything else from the options of the plugin
  (\<^verbatim>\<open>this.opts\<close>); the two objects are one record here. \<open>opt_onIncludedFiles\<close> says
  whether a callback was supplied.
\<close>

record opts =
  opt_cache :: "bool option"
  opt_importSources :: "string list option"
  opt_root :: "string option"
  opt_importReact :: "bool option"
  opt_processXcss :: "bool option"
  opt_onIncludedFiles :: bool
  opt_resolver :: "resolverOption option"

type_synonym nodepath = nat

type_synonym cacheRef = nat

text \<open>
  Module scope: \<^verbatim>\<open>let globalCache: Cache | undefined\<close>, and the Cache objects constructed so
  far. A Cache object is identified by its index in \<open>heap\<close>; the entry holds the options
  it was last initialised with.
\<close>

record moduleScope =
  globalCache :: "cacheRef option"
  heap :: "opts option list"

definition new_Cache :: "moduleScope \<Rightarrow> cacheRef \<times> moduleScope" where
  "new_Cache m = (length (heap m), m\<lparr>heap := heap m @ [None]\<rparr>)"

definition initialize :: "cacheRef \<Rightarrow> opts \<Rightarrow> moduleScope \<Rightarrow> moduleScope" where
  "initialize r options m = m\<lparr>heap := (heap m)[r := Some options]\<rparr>"

text \<open>
  The plugin pass (\<^verbatim>\<open>this\<close> and \<^verbatim>\<open>state\<close> are the same object). The optional flags of
  \<^verbatim>\<open>pragma\<close> are only ever set to true and only tested for truthiness, so unset is
  \<^const>\<open>False\<close>. An action of \<open>pathsToCleanup\<close> is the string the source switches on.
  The per-node memo \<^verbatim>\<open>transformCache\<close>, which only the handlers read, is left out.
\<close>

record state =
  opts :: opts
  cwd :: string
  filename :: "string option"
  sheets :: "string \<rightharpoonup> string"
  cssMap :: "string \<rightharpoonup> string list"
  cache :: cacheRef
  includedFiles :: "string list"
  pathsToCleanup :: "(nodepath \<times> string) list"
  pragma_jsx :: bool
  pragma_jsxImportSource :: bool
  usesXcss :: bool
  importSources :: "string list"
  resolver :: "nat option"
  compiledImports :: "(string \<rightharpoonup> string) option"

section \<open>pre\<close>

text \<open>\<^verbatim>\<open>state.opts.root ?? this.cwd\<close>.\<close>

definition rootPath :: "opts \<Rightarrow> string \<Rightarrow> string" where
  "rootPath options dir = (case opt_root options of Some r \<Rightarrow> r | None \<Rightarrow> dir)"

text \<open>The callback of \<^verbatim>\<open>this.opts.importSources.map\<close>.\<close>

definition qualifyOrigin :: "pathlib \<Rightarrow> string \<Rightarrow> string \<Rightarrow> string" where
  "qualifyOrigin P root origin = (if firstCharIsDot origin then join P root origin else origin)"

definition configuredOrigins :: "pathlib \<Rightarrow> opts \<Rightarrow> string \<Rightarrow> string list" where
  "configuredOrigins P options dir =
     (case opt_importSources options of
        Some srcs \<Rightarrow> map (qualifyOrigin P (rootPath options dir)) srcs
      | None \<Rightarrow> [])"

text \<open>
  \<^verbatim>\<open>pre\<close>. \<open>req spec root\<close> stands for
  \<^verbatim>\<open>require(require.resolve(spec, { paths: [root] }))\<close>, which throws when the module is
  not found (\<^const>\<open>None\<close>); the throw leaves the assignment to \<^verbatim>\<open>globalCache\<close> in place.
  \<open>compiledImports\<close> is not assigned here, so it starts undefined.
\<close>

definition pre ::
  "pathlib \<Rightarrow> (string \<Rightarrow> string \<Rightarrow> nat option) \<Rightarrow> string \<Rightarrow> string option \<Rightarrow> opts \<Rightarrow>
   moduleScope \<Rightarrow> (string + state) \<times> moduleScope" where
  "pre P req dir fname options m =
     (let (c, m1) =
            (if opt_cache options = Some True
             then (let (g, m') = new_Cache m in (g, m'\<lparr>globalCache := Some g\<rparr>))
             else new_Cache m);
          m2 = initialize c (options\<lparr>opt_cache := Some (opt_cache options = Some True)\<rparr>) m1;
          this = \<lparr>opts = options, cwd = dir, filename = fname,
                  sheets = Map.empty, cssMap = Map.empty, cache = c,
                  includedFiles = [], pathsToCleanup = [],
                  pragma_jsx = False, pragma_jsxImportSource = False, usesXcss = False,
                  importSources = DEFAULT_IMPORT_SOURCE # configuredOrigins P options dir,
                  resolver = None, compiledImports = None\<rparr>
      in case opt_resolver options of
           None \<Rightarrow> (Inr this, m2)
         | Some (ResolverObject ob) \<Rightarrow> (Inr (this\<lparr>resolver := Some ob\<rparr>), m2)
         | Some (ResolverModule spec) \<Rightarrow>
             (case req spec (rootPath options dir) of
                None \<Rightarrow> (Inl ''Cannot find module'', m2)
              | Some ob \<Rightarrow> (Inr (this\<lparr>resolver := Some ob\<rparr>), m2)))"

section \<open>Program.enter\<close>

record sourceFile =
  comments :: "codeUnit list list option"
  code :: string

text \<open>The body of the loop over \<^verbatim>\<open>file.ast.comments\<close>, for one comment value.\<close>

definition scanComment :: "state \<Rightarrow> codeUnit list \<Rightarrow> state" where
  "scanComment s comment =
     (let jsxSourceMatches = JSX_SOURCE_ANNOTATION_REGEX comment;
          jsxMatches = JSX_ANNOTATION_REGEX comment;
          s1 = (if jsxSourceMatches = Some (units DEFAULT_IMPORT_SOURCE)
                then s\<lparr>compiledImports := Some Map.empty, pragma_jsxImportSource := True\<rparr>
                else s)
      in if jsxMatches = Some (units ''jsx'') then s1\<lparr>pragma_jsx := True\<rparr> else s1)"

text \<open>\<^verbatim>\<open>state.opts.processXcss ?? true\<close>.\<close>

definition processXcss :: "opts \<Rightarrow> bool" where
  "processXcss options = (case opt_processXcss options of Some b \<Rightarrow> b | None \<Rightarrow> True)"

definition Program_enter :: "sourceFile \<Rightarrow> state \<Rightarrow> state" where
  "Program_enter f s =
     (let s1 = (case comments f of None \<Rightarrow> s | Some cs \<Rightarrow> foldl scanComment s cs)
      in if processXcss (opts s1) \<and> xcssRegexTest (code f) then s1\<lparr>usesXcss := True\<rparr> else s1)"

section \<open>ImportDeclaration\<close>

text \<open>
  An import declaration as the visitor reads it: the module specifier and the list of
  specifier nodes. The imported name of a named specifier is an identifier or a string
  literal.
\<close>

datatype importedName = Identifier string | StringLiteral string

datatype specifier =
    ImportSpecifier importedName string
  | ImportDefaultSpecifier string
  | ImportNamespaceSpecifier string

record importDeclaration =
  source :: string
  specifiers :: "specifier list"

text \<open>The callback of \<^verbatim>\<open>this.importSources.some\<close>, for one origin.\<close>

definition matchesOrigin :: "pathlib \<Rightarrow> state \<Rightarrow> string \<Rightarrow> string \<Rightarrow> bool" where
  "matchesOrigin P s userLandModule compiledModuleOrigin =
     (if userLandModule = DEFAULT_IMPORT_SOURCE \<or> compiledModuleOrigin = userLandModule then True
      else
        (case filename s of
           None \<Rightarrow> False
         | Some f \<Rightarrow>
             if f \<noteq> [] \<and> firstCharIsDot userLandModule \<and>
                endsWith userLandModule (basename P compiledModuleOrigin)
             then (let fullpath = resolve P (dirname P f) userLandModule
                   in fullpath = compiledModuleOrigin)
             else False))"

definition isCompiledModule :: "pathlib \<Rightarrow> state \<Rightarrow> string \<Rightarrow> bool" where
  "isCompiledModule P s userLandModule =
     list_ex (matchesOrigin P s userLandModule) (importSources s)"

definition apiNames :: "string list" where
  "apiNames = [''styled'', ''ClassNames'', ''css'', ''keyframes'', ''cssMap'']"

text \<open>
  The body of the inner loop over the five API names. The second component is
  \<^verbatim>\<open>specifier.node\<close>, which is null once \<^verbatim>\<open>specifier.remove()\<close> has run.
\<close>

definition enableApi ::
  "(string \<rightharpoonup> string) option \<times> specifier option \<Rightarrow> string \<Rightarrow>
   (string \<rightharpoonup> string) option \<times> specifier option" where
  "enableApi acc apiName =
     (case acc of
        (Some imports, Some (ImportSpecifier (Identifier nm) loc)) \<Rightarrow>
          if nm = apiName then (Some (imports(apiName \<mapsto> loc)), None) else acc
      | _ \<Rightarrow> acc)"

text \<open>
  The body of the loop over \<^verbatim>\<open>path.get('specifiers')\<close>: the record so far and the
  specifiers kept so far, then one specifier.
\<close>

definition visitSpecifier ::
  "(string \<rightharpoonup> string) option \<times> specifier list \<Rightarrow> specifier \<Rightarrow>
   (string \<rightharpoonup> string) option \<times> specifier list" where
  "visitSpecifier acc sp =
     (case acc of (imports, kept) \<Rightarrow>
        if imports = None \<or> \<not> (case sp of ImportSpecifier _ _ \<Rightarrow> True | _ \<Rightarrow> False)
        then (imports, kept @ [sp])
        else (case foldl enableApi (imports, Some sp) apiNames of
                (imports', None) \<Rightarrow> (imports', kept)
              | (imports', Some _) \<Rightarrow> (imports', kept @ [sp])))"

text \<open>
  The visitor. The result is the new state and the declaration as it stands afterwards,
  \<^const>\<open>None\<close> when \<^verbatim>\<open>path.remove()\<close> has run.
\<close>

definition ImportDeclaration ::
  "pathlib \<Rightarrow> state \<Rightarrow> importDeclaration \<Rightarrow> state \<times> importDeclaration option" where
  "ImportDeclaration P s d =
     (if \<not> isCompiledModule P s (source d) then (s, Some d)
      else
        (let imports0 = (case compiledImports s of None \<Rightarrow> Some Map.empty | Some m \<Rightarrow> Some m);
             (imports, kept) = foldl visitSpecifier (imports0, []) (specifiers d);
             s' = s\<lparr>compiledImports := imports\<rparr>
         in if length kept = 0 then (s', None) else (s', Some (d\<lparr>specifiers := kept\<rparr>))))"

section \<open>The tree, Babel's primitives and the extraction handlers\<close>

text \<open>
  The syntax tree is a parameter \<open>'tree\<close>: the plugin reads and changes it only through
  Babel's path primitives and through the handlers it imports, which are parameters
  too. A node path is named by a number. Every call the plugin makes to one of them is
  recorded, in order, in \<open>trace\<close>.
\<close>

datatype ast = ImportReactNamespace | ImportForwardRef | Noop | NullLiteral

datatype event =
    PreserveLeadingComments
  | AppendRuntimeImports
  | UnshiftContainer ast
  | AddComment string
  | OnIncludedFiles "string list"
  | Remove nodepath
  | ReplaceWith nodepath ast
  | NormalizePropsUsage nodepath
  | VisitCssMapPath nodepath
  | VisitStyledPath nodepath
  | VisitClassNamesPath nodepath
  | VisitXcssPropPath nodepath
  | VisitCssPropPath nodepath

record 'tree world =
  st :: state
  tree :: "'tree"
  trace :: "event list"

text \<open>
  Babel: \<^verbatim>\<open>path.scope.getBinding(name)\<close> (is it defined), \<^verbatim>\<open>path.unshiftContainer('body', n)\<close>,
  \<^verbatim>\<open>path.addComment('leading', c)\<close>, \<^verbatim>\<open>p.remove()\<close> and \<^verbatim>\<open>p.replaceWith(n)\<close>.
\<close>

record 'tree babel =
  getBinding :: "'tree \<Rightarrow> string \<Rightarrow> bool"
  unshiftContainer :: "ast \<Rightarrow> 'tree \<Rightarrow> 'tree"
  addComment :: "string \<Rightarrow> 'tree \<Rightarrow> 'tree"
  removePath :: "nodepath \<Rightarrow> 'tree \<Rightarrow> 'tree"
  replaceWith :: "nodepath \<Rightarrow> ast \<Rightarrow> 'tree \<Rightarrow> 'tree"

text \<open>
  The helpers and handlers imported from the other modules of the repository. The
  \<^verbatim>\<open>visit...\<close> handlers receive the state and may change it as well as the tree.
\<close>

record 'tree handlers =
  preserveLeadingComments :: "'tree \<Rightarrow> 'tree"
  appendRuntimeImports :: "state \<Rightarrow> 'tree \<Rightarrow> 'tree"
  unique :: "string list \<Rightarrow> string list"
  normalizePropsUsage :: "nodepath \<Rightarrow> 'tree \<Rightarrow> 'tree"
  visitCssMapPath :: "nodepath \<Rightarrow> state \<times> 'tree \<Rightarrow> state \<times> 'tree"
  visitStyledPath :: "nodepath \<Rightarrow> state \<times> 'tree \<Rightarrow> state \<times> 'tree"
  visitClassNamesPath :: "nodepath \<Rightarrow> state \<times> 'tree \<Rightarrow> state \<times> 'tree"
  visitXcssPropPath :: "nodepath \<Rightarrow> state \<times> 'tree \<Rightarrow> state \<times> 'tree"
  visitCssPropPath :: "nodepath \<Rightarrow> state \<times> 'tree \<Rightarrow> state \<times> 'tree"

text \<open>
  The predicates of \<^verbatim>\<open>./utils/is-compiled\<close>, each applied to \<^verbatim>\<open>path.node\<close> (the node the
  path holds in the tree as it is when the predicate is called) and the state.
\<close>

record 'tree isCompiled =
  isCompiledCSSCallExpression :: "'tree \<Rightarrow> nodepath \<Rightarrow> state \<Rightarrow> bool"
  isCompiledCSSTaggedTemplateExpression :: "'tree \<Rightarrow> nodepath \<Rightarrow> state \<Rightarrow> bool"
  isCompiledKeyframesCallExpression :: "'tree \<Rightarrow> nodepath \<Rightarrow> state \<Rightarrow> bool"
  isCompiledKeyframesTaggedTemplateExpression :: "'tree \<Rightarrow> nodepath \<Rightarrow> state \<Rightarrow> bool"
  isCompiledStyledCallExpression :: "'tree \<Rightarrow> nodepath \<Rightarrow> state \<Rightarrow> bool"
  isCompiledStyledTaggedTemplateExpression :: "'tree \<Rightarrow> nodepath \<Rightarrow> state \<Rightarrow> bool"
  isCompiledCSSMapCallExpression :: "'tree \<Rightarrow> nodepath \<Rightarrow> state \<Rightarrow> bool"

text \<open>\<^verbatim>\<open>package.json\<close> and \<^verbatim>\<open>process.env.TEST_PKG_VERSION\<close>.\<close>

record host =
  packageName :: string
  packageVersion :: string
  TEST_PKG_VERSION :: "string option"

text \<open>A call that changes the tree only, and a call of a handler that is given the state.\<close>

definition mutate :: "event \<Rightarrow> ('tree \<Rightarrow> 'tree) \<Rightarrow> 'tree world \<Rightarrow> 'tree world" where
  "mutate e f w = w\<lparr>tree := f (tree w), trace := trace w @ [e]\<rparr>"

definition delegate ::
  "event \<Rightarrow> (state \<times> 'tree \<Rightarrow> state \<times> 'tree) \<Rightarrow> 'tree world \<Rightarrow> 'tree world" where
  "delegate e h w =
     (case h (st w, tree w) of (s, t) \<Rightarrow> \<lparr>st = s, tree = t, trace = trace w @ [e]\<rparr>)"

section \<open>The call and tagged-template visitor\<close>

definition hasStyles :: "'tree isCompiled \<Rightarrow> 'tree \<Rightarrow> nodepath \<Rightarrow> state \<Rightarrow> bool" where
  "hasStyles C t p s =
     (isCompiledCSSTaggedTemplateExpression C t p s \<or>
      isCompiledStyledTaggedTemplateExpression C t p s \<or>
      isCompiledCSSCallExpression C t p s \<or>
      isCompiledStyledCallExpression C t p s)"

definition isCompiledUtil :: "'tree isCompiled \<Rightarrow> 'tree \<Rightarrow> nodepath \<Rightarrow> state \<Rightarrow> bool" where
  "isCompiledUtil C t p s =
     (isCompiledCSSTaggedTemplateExpression C t p s \<or>
      isCompiledKeyframesTaggedTemplateExpression C t p s \<or>
      isCompiledCSSCallExpression C t p s \<or>
      isCompiledKeyframesCallExpression C t p s)"

definition isCompiledComponent :: "'tree isCompiled \<Rightarrow> 'tree \<Rightarrow> nodepath \<Rightarrow> state \<Rightarrow> bool" where
  "isCompiledComponent C t p s =
     (isCompiledStyledTaggedTemplateExpression C t p s \<or>
      isCompiledStyledCallExpression C t p s)"

text \<open>\<^verbatim>\<open>state.pathsToCleanup.push({ path, action })\<close>.\<close>

definition pushCleanup :: "nodepath \<Rightarrow> string \<Rightarrow> 'tree world \<Rightarrow> 'tree world" where
  "pushCleanup p action w =
     w\<lparr>st := (st w)\<lparr>pathsToCleanup := pathsToCleanup (st w) @ [(p, action)]\<rparr>\<rparr>"

text \<open>\<^verbatim>\<open>if (hasStyles) { normalizePropsUsage(path); }\<close>.\<close>

definition normalizeIfStyled ::
  "'tree isCompiled \<Rightarrow> 'tree handlers \<Rightarrow> nodepath \<Rightarrow> 'tree world \<Rightarrow> 'tree world" where
  "normalizeIfStyled C H p w =
     (if hasStyles C (tree w) p (st w)
      then mutate (NormalizePropsUsage p) (normalizePropsUsage H p) w
      else w)"

text \<open>
  The visitor \<^verbatim>\<open>'TaggedTemplateExpression|CallExpression'\<close>. \<^verbatim>\<open>normalizePropsUsage\<close> rewrites
  the node in place, so the predicates after it read the rewritten node.
\<close>

definition TaggedTemplateExpression_CallExpression ::
  "'tree isCompiled \<Rightarrow> 'tree handlers \<Rightarrow> nodepath \<Rightarrow> 'tree world \<Rightarrow> 'tree world" where
  "TaggedTemplateExpression_CallExpression C H p w =
     (if isCompiledCSSMapCallExpression C (tree w) p (st w)
      then delegate (VisitCssMapPath p) (visitCssMapPath H p) w
      else
        (let w1 = normalizeIfStyled C H p w
         in if isCompiledUtil C (tree w1) p (st w1) then pushCleanup p ''replace'' w1
            else if isCompiledComponent C (tree w1) p (st w1)
                 then delegate (VisitStyledPath p) (visitStyledPath H p) w1
            else w1))"

section \<open>The JSX visitors\<close>

text \<open>\<^verbatim>\<open>state.compiledImports?.[api]\<close> is truthy.\<close>

definition apiEnabled :: "state \<Rightarrow> string \<Rightarrow> bool" where
  "apiEnabled s api = (case compiledImports s of None \<Rightarrow> False | Some m \<Rightarrow> truthy (m api))"

definition JSXElement :: "'tree handlers \<Rightarrow> nodepath \<Rightarrow> 'tree world \<Rightarrow> 'tree world" where
  "JSXElement H p w =
     (if \<not> apiEnabled (st w) ''ClassNames'' then w
      else delegate (VisitClassNamesPath p) (visitClassNamesPath H p) w)"

definition JSXOpeningElement :: "'tree handlers \<Rightarrow> nodepath \<Rightarrow> 'tree world \<Rightarrow> 'tree world" where
  "JSXOpeningElement H p w =
     (let w1 = (if usesXcss (st w)
                then delegate (VisitXcssPropPath p) (visitXcssPropPath H p) w else w)
      in if compiledImports (st w1) \<noteq> None
         then delegate (VisitCssPropPath p) (visitCssPropPath H p) w1 else w1)"

section \<open>Program.exit\<close>

text \<open>The callback of \<^verbatim>\<open>state.pathsToCleanup.forEach\<close>.\<close>

definition cleanPath :: "'tree babel \<Rightarrow> 'tree world \<Rightarrow> nodepath \<times> string \<Rightarrow> 'tree world" where
  "cleanPath B w clean =
     (case clean of (p, action) \<Rightarrow>
        if action = ''remove'' then mutate (Remove p) (removePath B p) w
        else if action = ''replace''
             then mutate (ReplaceWith p NullLiteral) (replaceWith B p NullLiteral) w
        else w)"

text \<open>The text of the provenance comment.\<close>

definition provenance :: "pathlib \<Rightarrow> host \<Rightarrow> state \<Rightarrow> string" where
  "provenance P h s =
     (let b = basename P (case filename s of Some f \<Rightarrow> f | None \<Rightarrow> []);
          fname = (if b = [] then ''File'' else b);
          version = (case TEST_PKG_VERSION h of
                       None \<Rightarrow> packageVersion h
                     | Some v \<Rightarrow> if v = [] then packageVersion h else v)
      in '' '' @ fname @ '' generated by '' @ packageName h @ '' v'' @ version @ '' '')"

text \<open>\<^verbatim>\<open>Program.exit\<close> after its gate and before the loop over \<^verbatim>\<open>pathsToCleanup\<close>.\<close>

definition exitInsertions ::
  "pathlib \<Rightarrow> host \<Rightarrow> 'tree babel \<Rightarrow> 'tree handlers \<Rightarrow> 'tree world \<Rightarrow> 'tree world" where
  "exitInsertions P h B H w =
     (let s = st w;
          shouldImportReact = (case opt_importReact (opts s) of Some b \<Rightarrow> b | None \<Rightarrow> True);
          w1 = mutate PreserveLeadingComments (preserveLeadingComments H) w;
          w2 = mutate AppendRuntimeImports (appendRuntimeImports H s) w1;
          hasPragma = (pragma_jsxImportSource s \<or> pragma_jsx s);
          w3 = (if \<not> hasPragma \<and> shouldImportReact \<and> \<not> getBinding B (tree w2) ''React''
                then mutate (UnshiftContainer ImportReactNamespace)
                       (unshiftContainer B ImportReactNamespace) w2
                else w2);
          w4 = (if apiEnabled s ''styled'' \<and> \<not> getBinding B (tree w3) ''forwardRef''
                then mutate (UnshiftContainer ImportForwardRef)
                       (unshiftContainer B ImportForwardRef) w3
                else w3);
          c = provenance P h s;
          w5 = mutate (AddComment c) (addComment B c) w4;
          w6 = mutate (UnshiftContainer Noop) (unshiftContainer B Noop) w5
      in if includedFiles s \<noteq> [] \<and> opt_onIncludedFiles (opts s)
         then mutate (OnIncludedFiles (unique H (includedFiles s))) id w6
         else w6)"

definition Program_exit ::
  "pathlib \<Rightarrow> host \<Rightarrow> 'tree babel \<Rightarrow> 'tree handlers \<Rightarrow> 'tree world \<Rightarrow> 'tree world" where
  "Program_exit P h B H w =
     (if compiledImports (st w) = None \<and> \<not> usesXcss (st w) then w
      else
        (let w7 = exitInsertions P h B H w
         in foldl (cleanPath B) w7 (pathsToCleanup (st w7))))"

section \<open>Concrete instances of the parameters\<close>

subsection \<open>The POSIX flavour of Node's path functions\<close>

text \<open>
  \<^verbatim>\<open>path.posix\<close> as Node implements it, for evaluating the model on concrete paths:
  \<^verbatim>\<open>normalizeString\<close> drops empty and \<^verbatim>\<open>.\<close> segments and lets \<^verbatim>\<open>..\<close> cancel the segment
  before it; \<^verbatim>\<open>join\<close> glues its non-empty arguments with a slash and normalises;
  \<^verbatim>\<open>resolve\<close> prepends arguments from the right until the path is absolute, falling
  back on the working directory.
\<close>

fun splitPath :: "string \<Rightarrow> string list" where
  "splitPath [] = [[]]"
| "splitPath (c # r) =
     (if c = CHR ''/'' then [] # splitPath r
      else (case splitPath r of [] \<Rightarrow> [[c]] | x # xs \<Rightarrow> (c # x) # xs))"

fun joinSlash :: "string list \<Rightarrow> string" where
  "joinSlash [] = []"
| "joinSlash [x] = x"
| "joinSlash (x # y # r) = x @ ''/'' @ joinSlash (y # r)"

definition isAbsolute :: "string \<Rightarrow> bool" where
  "isAbsolute p = (case p of [] \<Rightarrow> False | c # _ \<Rightarrow> c = CHR ''/'')"

definition pushSegment :: "bool \<Rightarrow> string list \<Rightarrow> string \<Rightarrow> string list" where
  "pushSegment allowAboveRoot res seg =
     (if seg = [] \<or> seg = ''.'' then res
      else if seg = ''..'' then
        (if res \<noteq> [] \<and> last res \<noteq> ''..'' then butlast res
         else if allowAboveRoot then res @ [''..''] else res)
      else res @ [seg])"

definition normalizeString :: "string \<Rightarrow> bool \<Rightarrow> string" where
  "normalizeString p allowAboveRoot =
     joinSlash (foldl (pushSegment allowAboveRoot) [] (splitPath p))"

definition posix_normalize :: "string \<Rightarrow> string" where
  "posix_normalize p =
     (if p = [] then ''.''
      else
        (let q = normalizeString p (\<not> isAbsolute p);
             trailing = (last p = CHR ''/'')
         in if q = [] then (if isAbsolute p then ''/'' else if trailing then ''./'' else ''.'')
            else (if isAbsolute p then ''/'' else []) @ q @ (if trailing then ''/'' else [])))"

definition posix_join :: "string \<Rightarrow> string \<Rightarrow> string" where
  "posix_join a b =
     (let parts = filter (\<lambda>x. x \<noteq> []) [a, b]
      in if parts = [] then ''.'' else posix_normalize (joinSlash parts))"

definition resolveStep :: "string \<times> bool \<Rightarrow> string \<Rightarrow> string \<times> bool" where
  "resolveStep acc p =
     (case acc of (r, ab) \<Rightarrow> if ab \<or> p = [] then acc else (p @ ''/'' @ r, isAbsolute p))"

definition posix_resolve :: "string \<Rightarrow> string \<Rightarrow> string \<Rightarrow> string" where
  "posix_resolve dir a b =
     (case foldl resolveStep ([], False) [b, a, dir] of
        (r, ab) \<Rightarrow>
          (let q = normalizeString r (\<not> ab)
           in if ab then ''/'' @ q else if q = [] then ''.'' else q))"

definition posix_basename :: "string \<Rightarrow> string" where
  "posix_basename p =
     (case filter (\<lambda>x. x \<noteq> []) (splitPath p) of [] \<Rightarrow> [] | x # xs \<Rightarrow> last (x # xs))"

definition posix_dirname :: "string \<Rightarrow> string" where
  "posix_dirname p =
     (if p = [] then ''.''
      else
        (let r = dropWhile (\<lambda>c. c \<noteq> CHR ''/'') (dropWhile (\<lambda>c. c = CHR ''/'') (rev p))
         in if length r \<le> 1 then (if isAbsolute p then ''/'' else ''.'')
            else if isAbsolute p \<and> length r = 2 then ''//''
            else rev (tl r)))"

definition posix :: "string \<Rightarrow> pathlib" where
  "posix dir = \<lparr>basename = posix_basename, dirname = posix_dirname,
                resolve = posix_resolve dir, join = posix_join\<rparr>"

subsection \<open>A tree that records the calls made on it\<close>

text \<open>
  For evaluating the visitors on concrete inputs the tree is the list of calls applied
  to the parsed program, and the scope is the list of names the program binds.
\<close>

definition logBabel :: "string list \<Rightarrow> event list babel" where
  "logBabel bound =
     \<lparr>getBinding = (\<lambda>t n. n \<in> set bound),
      unshiftContainer = (\<lambda>a t. t @ [UnshiftContainer a]),
      addComment = (\<lambda>c t. t @ [AddComment c]),
      removePath = (\<lambda>p t. t @ [Remove p]),
      replaceWith = (\<lambda>p a t. t @ [ReplaceWith p a])\<rparr>"

fun firstOccurrences :: "string list \<Rightarrow> string list \<Rightarrow> string list" where
  "firstOccurrences seen [] = []"
| "firstOccurrences seen (x # xs) =
     (if x \<in> set seen then firstOccurrences seen xs else x # firstOccurrences (x # seen) xs)"

definition logHandlers :: "event list handlers" where
  "logHandlers =
     \<lparr>preserveLeadingComments = (\<lambda>t. t @ [PreserveLeadingComments]),
      appendRuntimeImports = (\<lambda>s t. t @ [AppendRuntimeImports]),
      unique = firstOccurrences [],
      normalizePropsUsage = (\<lambda>p t. t @ [NormalizePropsUsage p]),
      visitCssMapPath = (\<lambda>p (s, t). (s, t @ [VisitCssMapPath p])),
      visitStyledPath = (\<lambda>p (s, t). (s, t @ [VisitStyledPath p])),
      visitClassNamesPath = (\<lambda>p (s, t). (s, t @ [VisitClassNamesPath p])),
      visitXcssPropPath = (\<lambda>p (s, t). (s, t @ [VisitXcssPropPath p])),
      visitCssPropPath = (\<lambda>p (s, t). (s, t @ [VisitCssPropPath p]))\<rparr>"

text \<open>
  Node shapes for the examples: \<open>shape p\<close> names what the node at path \<open>p\<close> is.
\<close>

definition shapeIsCompiled :: "(nodepath \<Rightarrow> string) \<Rightarrow> event list isCompiled" where
  "shapeIsCompiled shape =
     \<lparr>isCompiledCSSCallExpression = (\<lambda>t p s. shape p = ''css()''),
      isCompiledCSSTaggedTemplateExpression = (\<lambda>t p s. shape p = ''css``''),
      isCompiledKeyframesCallExpression = (\<lambda>t p s. shape p = ''keyframes()''),
      isCompiledKeyframesTaggedTemplateExpression = (\<lambda>t p s. shape p = ''keyframes``''),
      isCompiledStyledCallExpression = (\<lambda>t p s. shape p = ''styled()''),
      isCompiledStyledTaggedTemplateExpression = (\<lambda>t p s. shape p = ''styled``''),
      isCompiledCSSMapCallExpression = (\<lambda>t p s. shape p = ''cssMap()'')\<rparr>"

definition exampleHost :: host where
  "exampleHost = \<lparr>packageName = ''@compiled/babel-plugin'', packageVersion = ''0.0.0'',
                  TEST_PKG_VERSION = None\<rparr>"

definition noOpts :: opts where
  "noOpts = \<lparr>opt_cache = None, opt_importSources = None, opt_root = None,
             opt_importReact = None, opt_processXcss = None, opt_onIncludedFiles = False,
             opt_resolver = None\<rparr>"

definition freshModule :: moduleScope where
  "freshModule = \<lparr>globalCache = None, heap = []\<rparr>"

text \<open>
  The state \<^verbatim>\<open>pre\<close> builds for the file \<^verbatim>\<open>/proj/src/app/a.js\<close> with no option set, in a
  process started in \<^verbatim>\<open>/proj\<close> that has constructed no Cache yet.
\<close>

definition exampleState :: state where
  "exampleState =
     \<lparr>opts = noOpts, cwd = ''/proj'', filename = Some ''/proj/src/app/a.js'',
      sheets = Map.empty, cssMap = Map.empty, cache = 0,
      includedFiles = [], pathsToCleanup = [],
      pragma_jsx = False, pragma_jsxImportSource = False, usesXcss = False,
      importSources = [''@compiled/react''],
      resolver = None, compiledImports = None\<rparr>"

text \<open>
  A file that imported \<^verbatim>\<open>css\<close> and \<^verbatim>\<open>styled\<close>, at the end of its traversal: three actions
  are queued, for the paths 3, 1 and 2 in that order. Nothing in scope binds \<^verbatim>\<open>React\<close>.
\<close>

definition exampleWorld :: "event list world" where
  "exampleWorld =
     \<lparr>st = exampleState
        \<lparr>compiledImports := Some [''css'' \<mapsto> ''css'', ''styled'' \<mapsto> ''styled''],
         pathsToCleanup := [(3, ''replace''), (1, ''remove''), (2, ''replace'')]\<rparr>,
      tree = [], trace = []\<rparr>"

text \<open>The same file compiled with \<^verbatim>\<open>importReact: false\<close>.\<close>

definition exampleWorldNoReact :: "event list world" where
  "exampleWorldNoReact =
     exampleWorld\<lparr>st := (st exampleWorld)\<lparr>opts := noOpts\<lparr>opt_importReact := Some False\<rparr>\<rparr>\<rparr>"

text \<open>Five nodes of that file, by path.\<close>

definition exampleShape :: "nodepath \<Rightarrow> string" where
  "exampleShape p =
     (if p = 11 then ''cssMap()'' else if p = 12 then ''css``''
      else if p = 13 then ''styled``'' else if p = 14 then ''keyframes()''
      else ''console.log()'')"

text \<open>
  Options that add the origin \<^verbatim>\<open>./src/styles\<close>, and the state \<^verbatim>\<open>pre\<close> builds from them
  for the file \<^verbatim>\<open>/proj/src/app/a.js\<close>.
\<close>

definition stylesOpts :: opts where
  "stylesOpts = noOpts\<lparr>opt_importSources := Some [''./src/styles'']\<rparr>"

definition stylesState :: state where
  "stylesState =
     exampleState\<lparr>opts := stylesOpts, importSources := [''@compiled/react'', ''/proj/src/styles'']\<rparr>"

text \<open>
  Options with a relative root: \<^verbatim>\<open>{ root: '.', importSources: ['../styles'] }\<close>, and the
  state \<^verbatim>\<open>pre\<close> builds from them when the compilation has no file name.
\<close>

definition relativeRootOpts :: opts where
  "relativeRootOpts = noOpts\<lparr>opt_root := Some ''.'', opt_importSources := Some [''../styles'']\<rparr>"

definition relativeRootState :: state where
  "relativeRootState =
     exampleState\<lparr>opts := relativeRootOpts, filename := None,
                  importSources := [''@compiled/react'', ''../styles'']\<rparr>"

text \<open>Options with \<^verbatim>\<open>cache: true\<close>.\<close>

definition cacheOpts :: opts where
  "cacheOpts = noOpts\<lparr>opt_cache := Some True\<rparr>"



text \<open>
  Source files: one whose only comment is \<^verbatim>\<open>/** @jsx h */\<close>, one with
  \<^verbatim>\<open>/** @jsx jsx */\<close>, one with the same pragma written with a no-break space after
  \<^verbatim>\<open>@jsx\<close>, one that spells the prop \<^verbatim>\<open>XCSS\<close> and one that spells it \<^verbatim>\<open>iconXcss\<close>.
\<close>

definition hPragmaFile :: sourceFile where
  "hPragmaFile = \<lparr>comments = Some [units ''* @jsx h ''], code = ''/** @jsx h */ h(App)''\<rparr>"

definition jsxPragmaFile :: sourceFile where
  "jsxPragmaFile =
     \<lparr>comments = Some [units '' eslint-disable '', units ''* @jsx jsx ''],
      code = ''/** @jsx jsx */ <div />''\<rparr>"

definition nbspPragmaFile :: sourceFile where
  "nbspPragmaFile =
     \<lparr>comments = Some [units ''* @jsx'' @ [0xA0] @ units ''jsx ''], code = ''<div />''\<rparr>"

definition upperXcssFile :: sourceFile where
  "upperXcssFile = \<lparr>comments = None, code = ''<Box XCSS={styles} />''\<rparr>"

definition iconXcssFile :: sourceFile where
  "iconXcssFile = \<lparr>comments = None, code = ''<Box iconXcss={styles} />''\<rparr>"


text \<open>The Cache a run of \<^verbatim>\<open>pre\<close> stored in the state, if the run returned.\<close>

definition cacheOfRun :: "(string + state) \<times> moduleScope \<Rightarrow> cacheRef option" where
  "cacheOfRun r = (case fst r of Inl e \<Rightarrow> None | Inr s \<Rightarrow> Some (cache s))"

text \<open>
  Two compilations in one process, both with \<^verbatim>\<open>cache: true\<close>: first \<^verbatim>\<open>/proj/a.js\<close>, then
  \<^verbatim>\<open>/proj/b.js\<close>.
\<close>

definition firstRun :: "(string + state) \<times> moduleScope" where
  "firstRun =
     pre (posix ''/proj'') (\<lambda>spec root. None) ''/proj'' (Some ''/proj/a.js'') cacheOpts freshModule"

definition secondRun :: "(string + state) \<times> moduleScope" where
  "secondRun =
     pre (posix ''/proj'') (\<lambda>spec root. None) ''/proj'' (Some ''/proj/b.js'') cacheOpts
       (snd firstRun)"

section \<open>Vocabulary of the statements\<close>

text \<open>The calls a run added to the trace.\<close>

definition newEvents :: "'tree world \<Rightarrow> 'tree world \<Rightarrow> event list" where
  "newEvents w w' = drop (length (trace w)) (trace w')"

text \<open>The events that apply a cleanup action.\<close>

definition isCleanup :: "event \<Rightarrow> bool" where
  "isCleanup e = (case e of Remove p \<Rightarrow> True | ReplaceWith p a \<Rightarrow> True | _ \<Rightarrow> False)"

text \<open>What applying one queued action amounts to, in the words of the specification.\<close>

definition cleanupEvent :: "nodepath \<times> string \<Rightarrow> event list" where
  "cleanupEvent clean =
     (if snd clean = ''remove'' then [Remove (fst clean)]
      else if snd clean = ''replace'' then [ReplaceWith (fst clean) NullLiteral]
      else [])"

text \<open>
  The tree in the words of the specification. One queued action: \<^verbatim>\<open>remove\<close> deletes
  the node, \<^verbatim>\<open>replace\<close> puts a null literal in its place.
\<close>

definition cleanupTree :: "'tree babel \<Rightarrow> 'tree \<Rightarrow> nodepath \<times> string \<Rightarrow> 'tree" where
  "cleanupTree B t clean =
     (if snd clean = ''remove'' then removePath B (fst clean) t
      else if snd clean = ''replace'' then replaceWith B (fst clean) NullLiteral t
      else t)"

text \<open>
  Step (3) of finalisation: the React import goes in front of the program when no
  pragma flag is set, the option is not false and \<^verbatim>\<open>React\<close> is not bound.
\<close>

definition reactStep :: "'tree babel \<Rightarrow> state \<Rightarrow> 'tree \<Rightarrow> 'tree" where
  "reactStep B s t =
     (if \<not> pragma_jsxImportSource s \<and> \<not> pragma_jsx s \<and> opt_importReact (opts s) \<noteq> Some False
         \<and> \<not> getBinding B t ''React''
      then unshiftContainer B ImportReactNamespace t else t)"

text \<open>Step (4): the forwardRef import, when \<^verbatim>\<open>styled\<close> was imported and it is not bound.\<close>

definition forwardRefStep :: "'tree babel \<Rightarrow> state \<Rightarrow> 'tree \<Rightarrow> 'tree" where
  "forwardRefStep B s t =
     (if apiEnabled s ''styled'' \<and> \<not> getBinding B t ''forwardRef''
      then unshiftContainer B ImportForwardRef t else t)"

text \<open>
  Steps (4) to (7), from the tree step (3) leaves: the forwardRef import, the
  provenance comment, the separator, then the queue from its first entry to its last.
\<close>

definition restOfExit :: "pathlib \<Rightarrow> host \<Rightarrow> 'tree babel \<Rightarrow> state \<Rightarrow> 'tree \<Rightarrow> 'tree" where
  "restOfExit P h B s t =
     foldl (cleanupTree B)
       (unshiftContainer B Noop (addComment B (provenance P h s) (forwardRefStep B s t)))
       (pathsToCleanup s)"






section \<open>Basic facts about the effect primitives\<close>

lemma trace_mutate [simp]: "trace (mutate e f w) = trace w @ [e]"
  by (simp add: mutate_def)

lemma st_mutate [simp]: "st (mutate e f w) = st w"
  by (simp add: mutate_def)

lemma tree_mutate [simp]: "tree (mutate e f w) = f (tree w)"
  by (simp add: mutate_def)

lemma trace_delegate [simp]: "trace (delegate e h w) = trace w @ [e]"
  by (simp add: delegate_def split: prod.splits)

lemma trace_pushCleanup [simp]: "trace (pushCleanup p a w) = trace w"
  by (simp add: pushCleanup_def)

lemma tree_pushCleanup [simp]: "tree (pushCleanup p a w) = tree w"
  by (simp add: pushCleanup_def)

lemma st_pushCleanup [simp]:
  "st (pushCleanup p a w) = (st w)\<lparr>pathsToCleanup := pathsToCleanup (st w) @ [(p, a)]\<rparr>"
  by (simp add: pushCleanup_def)

lemma trace_cleanPath: "trace (cleanPath B w c) = trace w @ cleanupEvent c"
  by (cases c) (simp add: cleanPath_def cleanupEvent_def)

lemma st_cleanPath [simp]: "st (cleanPath B w c) = st w"
  by (cases c) (simp add: cleanPath_def)

lemma trace_cleanup: "trace (foldl (cleanPath B) w q) = trace w @ concat (map cleanupEvent q)"
  by (induction q arbitrary: w) (simp_all add: trace_cleanPath)

lemma st_cleanup [simp]: "st (foldl (cleanPath B) w q) = st w"
  by (induction q arbitrary: w) simp_all

text \<open>\<^verbatim>\<open>pre\<close> does build the example state.\<close>

lemma pre_exampleState:
  "pre (posix ''/proj'') (\<lambda>spec root. None) ''/proj'' (Some ''/proj/src/app/a.js'') noOpts
     freshModule
   = (Inr exampleState,
      \<lparr>globalCache = None, heap = [Some (noOpts\<lparr>opt_cache := Some False\<rparr>)]\<rparr>)"
  by (simp add: pre_def noOpts_def freshModule_def new_Cache_def initialize_def exampleState_def
      configuredOrigins_def DEFAULT_IMPORT_SOURCE_def)

section \<open>Finalisation is skipped for files that do not use the library\<close>

text \<open>
  Claim C1. When no import binding record exists (\<open>compiledImports\<close> is undefined) and
  \<open>usesXcss\<close> is false, \<^verbatim>\<open>Program.exit\<close> returns at once: the state, the tree and the
  trace of calls are what they were, so no runtime import is appended, no React or
  forwardRef import is inserted, no comment is added, no queued action is applied and
  \<^verbatim>\<open>onIncludedFiles\<close> is not called.
\<close>

theorem exit_is_noop_without_imports_and_xcss:
  "compiledImports (st w) = None \<Longrightarrow> \<not> usesXcss (st w) \<Longrightarrow> Program_exit P h B H w = w"
  by (simp add: Program_exit_def)

theorem exit_is_noop_witness:
  "compiledImports exampleState = None \<and> \<not> usesXcss exampleState \<and>
   Program_exit (posix ''/proj'') exampleHost (logBabel []) logHandlers
     \<lparr>st = exampleState, tree = [], trace = []\<rparr>
   = \<lparr>st = exampleState, tree = [], trace = []\<rparr>"
  using exit_is_noop_without_imports_and_xcss
    [of "\<lparr>st = exampleState, tree = [], trace = []\<rparr>" "posix ''/proj''" exampleHost
        "logBabel []" logHandlers]
  by (simp add: exampleState_def)

section \<open>Facts about the two halves of Program.exit\<close>

lemma st_exitInsertions [simp]: "st (exitInsertions P h B H w) = st w"
  by (simp add: exitInsertions_def Let_def)

lemma trace_exitInsertions:
  "trace (exitInsertions P h B H w) = trace w @ newEvents w (exitInsertions P h B H w)"
  by (simp add: exitInsertions_def Let_def newEvents_def)

lemma no_cleanup_in_exitInsertions:
  "filter isCleanup (newEvents w (exitInsertions P h B H w)) = []"
  by (simp add: exitInsertions_def Let_def newEvents_def isCleanup_def)

lemma trace_exit_gate_open:
  assumes "compiledImports (st w) \<noteq> None \<or> usesXcss (st w)"
  shows "trace (Program_exit P h B H w)
           = trace (exitInsertions P h B H w)
             @ concat (map cleanupEvent (pathsToCleanup (st w)))"
  using assms by (auto simp add: Program_exit_def Let_def trace_cleanup)

lemma newEvents_exit:
  assumes "compiledImports (st w) \<noteq> None \<or> usesXcss (st w)"
  shows "newEvents w (Program_exit P h B H w)
           = newEvents w (exitInsertions P h B H w)
             @ concat (map cleanupEvent (pathsToCleanup (st w)))"
proof -
  have "trace (Program_exit P h B H w)
          = trace w @ (newEvents w (exitInsertions P h B H w)
                       @ concat (map cleanupEvent (pathsToCleanup (st w))))"
    using trace_exit_gate_open [OF assms, of P h B H] trace_exitInsertions [of P h B H w]
    by simp
  then show ?thesis
    by (simp add: newEvents_def)
qed

lemma newEvents_exit_skip:
  "compiledImports (st w) = None \<and> \<not> usesXcss (st w) \<Longrightarrow>
   newEvents w (Program_exit P h B H w) = []"
  by (simp add: Program_exit_def newEvents_def)

lemma trace_exit_extends:
  "trace (Program_exit P h B H w) = trace w @ newEvents w (Program_exit P h B H w)"
proof (cases "compiledImports (st w) \<noteq> None \<or> usesXcss (st w)")
  case True
  show ?thesis
    using trace_exit_gate_open [OF True, of P h B H] trace_exitInsertions [of P h B H w]
    by (simp add: newEvents_exit [OF True])
next
  case False
  then show ?thesis
    by (simp add: Program_exit_def newEvents_def)
qed

text \<open>The tree \<^verbatim>\<open>Program.exit\<close> leaves, step by step.\<close>

lemma tree_cleanPath: "tree (cleanPath B w c) = cleanupTree B (tree w) c"
  by (cases c) (simp add: cleanPath_def cleanupTree_def)

lemma tree_cleanup: "tree (foldl (cleanPath B) w q) = foldl (cleanupTree B) (tree w) q"
  by (induction q arbitrary: w) (simp_all add: tree_cleanPath)

lemma tree_exitInsertions:
  "tree (exitInsertions P h B H w)
     = unshiftContainer B Noop (addComment B (provenance P h (st w))
         (forwardRefStep B (st w)
            (reactStep B (st w)
               (appendRuntimeImports H (st w) (preserveLeadingComments H (tree w))))))"
proof -
  have imp: "(case opt_importReact (opts (st w)) of Some b \<Rightarrow> b | None \<Rightarrow> True)
      \<longleftrightarrow> opt_importReact (opts (st w)) \<noteq> Some False"
    by (simp split: option.splits)
  show ?thesis
    unfolding exitInsertions_def Let_def imp reactStep_def forwardRefStep_def
    by simp
qed

lemma tree_exit_gate_open:
  assumes "compiledImports (st w) \<noteq> None \<or> usesXcss (st w)"
  shows "tree (Program_exit P h B H w)
           = restOfExit P h B (st w)
               (reactStep B (st w)
                  (appendRuntimeImports H (st w) (preserveLeadingComments H (tree w))))"
  using assms by (auto simp add: Program_exit_def Let_def tree_cleanup tree_exitInsertions restOfExit_def)

lemma st_exit [simp]: "st (Program_exit P h B H w) = st w"
  by (simp add: Program_exit_def Let_def)

text \<open>The example world and the recording instances, evaluated.\<close>

lemma example_facts:
  "compiledImports (st exampleWorld) \<noteq> None"
  "pathsToCleanup (st exampleWorld) = [(3, ''replace''), (1, ''remove''), (2, ''replace'')]"
  "tree exampleWorld = []" "trace exampleWorld = []"
  "\<not> pragma_jsxImportSource (st exampleWorld)" "\<not> pragma_jsx (st exampleWorld)"
  "opt_importReact (opts (st exampleWorld)) \<noteq> Some False"
  "apiEnabled (st exampleWorld) ''styled''"
  "provenance (posix ''/proj'') exampleHost (st exampleWorld)
     = '' a.js generated by @compiled/babel-plugin v0.0.0 ''"
  by (simp_all add: exampleWorld_def exampleState_def noOpts_def apiEnabled_def truthy_def) code_simp

lemma example_noreact_facts:
  "compiledImports (st exampleWorldNoReact) \<noteq> None"
  "pathsToCleanup (st exampleWorldNoReact) = [(3, ''replace''), (1, ''remove''), (2, ''replace'')]"
  "tree exampleWorldNoReact = []" "trace exampleWorldNoReact = []"
  "opt_importReact (opts (st exampleWorldNoReact)) = Some False"
  "apiEnabled (st exampleWorldNoReact) ''styled''"
  "provenance (posix ''/proj'') exampleHost (st exampleWorldNoReact)
     = '' a.js generated by @compiled/babel-plugin v0.0.0 ''"
  by (simp_all add: exampleWorldNoReact_def exampleWorld_def exampleState_def noOpts_def
      apiEnabled_def truthy_def) code_simp

lemma log_calls:
  "getBinding (logBabel bound) t n = (n \<in> set bound)"
  "unshiftContainer (logBabel bound) a t = t @ [UnshiftContainer a]"
  "addComment (logBabel bound) c t = t @ [AddComment c]"
  "removePath (logBabel bound) p t = t @ [Remove p]"
  "replaceWith (logBabel bound) p a t = t @ [ReplaceWith p a]"
  "preserveLeadingComments logHandlers t = t @ [PreserveLeadingComments]"
  "appendRuntimeImports logHandlers s t = t @ [AppendRuntimeImports]"
  "normalizePropsUsage logHandlers p t = t @ [NormalizePropsUsage p]"
  by (simp_all add: logBabel_def logHandlers_def)

section \<open>Facts about the call and tagged-template visitor\<close>

lemma st_normalizeIfStyled [simp]: "st (normalizeIfStyled C H p w) = st w"
  by (simp add: normalizeIfStyled_def)

lemma tree_normalizeIfStyled:
  "tree (normalizeIfStyled C H p w)
     = (if hasStyles C (tree w) p (st w) then normalizePropsUsage H p (tree w) else tree w)"
  by (simp add: normalizeIfStyled_def)

lemma component_hasStyles: "isCompiledComponent C t p s \<Longrightarrow> hasStyles C t p s"
  by (auto simp add: isCompiledComponent_def hasStyles_def)

lemma hasStyles_cases:
  "hasStyles C t p s \<Longrightarrow> isCompiledUtil C t p s \<or> isCompiledComponent C t p s"
  by (auto simp add: isCompiledComponent_def hasStyles_def isCompiledUtil_def)

lemma visitor_applies_no_cleanup:
  "filter isCleanup (trace (TaggedTemplateExpression_CallExpression C H p w))
     = filter isCleanup (trace w)"
  by (simp add: TaggedTemplateExpression_CallExpression_def normalizeIfStyled_def Let_def
      isCleanup_def)

lemma fields_delegate:
  "(st (delegate e h w), tree (delegate e h w)) = h (st w, tree w)"
  by (simp add: delegate_def split: prod.splits)

section \<open>Queued cleanup actions\<close>

text \<open>
  Claim C2. The call and tagged-template visitor applies no cleanup action while the
  tree is traversed (the Remove and ReplaceWith calls in the trace are the same before
  and after it); when it classifies a node as a style utility it appends the action
  \<^verbatim>\<open>replace\<close> for that node at the end of the queue and leaves the tree as the
  normalisation rewrite left it. When finalisation runs, \<^verbatim>\<open>Program.exit\<close> first makes
  calls none of which applies a cleanup action and then applies the queue from its
  first entry to its last, one application per entry. The tree it returns is the tree
  after the insertions with the queued actions applied to it in queue order, the first
  entry first: \<^verbatim>\<open>remove\<close> is \<^verbatim>\<open>path.remove()\<close>, \<^verbatim>\<open>replace\<close> is
  \<^verbatim>\<open>path.replaceWith(t.nullLiteral())\<close>. The state, and with it the queue, is unchanged.
\<close>

theorem cleanup_actions_applied_once_fifo_at_exit:
  "filter isCleanup (trace (TaggedTemplateExpression_CallExpression C H p w))
     = filter isCleanup (trace w)
   \<and> (\<not> isCompiledCSSMapCallExpression C (tree w) p (st w) \<and>
        isCompiledUtil C
          (if hasStyles C (tree w) p (st w) then normalizePropsUsage H p (tree w) else tree w)
          p (st w) \<longrightarrow>
        st (TaggedTemplateExpression_CallExpression C H p w)
          = (st w)\<lparr>pathsToCleanup := pathsToCleanup (st w) @ [(p, ''replace'')]\<rparr>
        \<and> tree (TaggedTemplateExpression_CallExpression C H p w)
          = (if hasStyles C (tree w) p (st w) then normalizePropsUsage H p (tree w) else tree w))
   \<and> (compiledImports (st w) \<noteq> None \<or> usesXcss (st w) \<longrightarrow>
        (\<exists>evs. trace (Program_exit P h B H w)
                 = trace w @ evs @ concat (map cleanupEvent (pathsToCleanup (st w)))
              \<and> filter isCleanup evs = [])
        \<and> tree (Program_exit P h B H w)
          = foldl (cleanupTree B)
              (unshiftContainer B Noop (addComment B (provenance P h (st w))
                 (forwardRefStep B (st w)
                    (reactStep B (st w)
                       (appendRuntimeImports H (st w) (preserveLeadingComments H (tree w)))))))
              (pathsToCleanup (st w))
        \<and> st (Program_exit P h B H w) = st w)
   \<and> cleanupEvent (q, ''remove'') = [Remove q]
   \<and> cleanupEvent (q, ''replace'') = [ReplaceWith q NullLiteral]
   \<and> cleanupTree B t (q, ''remove'') = removePath B q t
   \<and> cleanupTree B t (q, ''replace'') = replaceWith B q NullLiteral t
   \<and> foldl (cleanupTree B) t (a # rest) = foldl (cleanupTree B) (cleanupTree B t a) rest"
proof -
  let ?V = "TaggedTemplateExpression_CallExpression C H p w"
  let ?n = "if hasStyles C (tree w) p (st w) then normalizePropsUsage H p (tree w) else tree w"
  have tn: "tree (normalizeIfStyled C H p w) = ?n"
    by (simp add: normalizeIfStyled_def)
  have sn: "st (normalizeIfStyled C H p w) = st w"
    by (simp add: normalizeIfStyled_def)
  have quiet: "filter isCleanup (trace ?V) = filter isCleanup (trace w)"
    by (simp add: TaggedTemplateExpression_CallExpression_def normalizeIfStyled_def Let_def
        isCleanup_def)
  have enqueue: "\<not> isCompiledCSSMapCallExpression C (tree w) p (st w) \<and>
        isCompiledUtil C ?n p (st w) \<longrightarrow>
        st ?V = (st w)\<lparr>pathsToCleanup := pathsToCleanup (st w) @ [(p, ''replace'')]\<rparr>
        \<and> tree ?V = ?n"
    by (simp add: TaggedTemplateExpression_CallExpression_def Let_def tn sn)
  have fifo: "compiledImports (st w) \<noteq> None \<or> usesXcss (st w) \<longrightarrow>
        (\<exists>evs. trace (Program_exit P h B H w)
                 = trace w @ evs @ concat (map cleanupEvent (pathsToCleanup (st w)))
              \<and> filter isCleanup evs = [])
        \<and> tree (Program_exit P h B H w)
          = foldl (cleanupTree B)
              (unshiftContainer B Noop (addComment B (provenance P h (st w))
                 (forwardRefStep B (st w)
                    (reactStep B (st w)
                       (appendRuntimeImports H (st w) (preserveLeadingComments H (tree w)))))))
              (pathsToCleanup (st w))
        \<and> st (Program_exit P h B H w) = st w"
  proof
    assume gate: "compiledImports (st w) \<noteq> None \<or> usesXcss (st w)"
    have "trace (Program_exit P h B H w)
            = trace w @ newEvents w (exitInsertions P h B H w)
              @ concat (map cleanupEvent (pathsToCleanup (st w)))"
      using trace_exit_gate_open [OF gate, of P h B H] trace_exitInsertions [of P h B H w]
      by simp
    then have ex: "\<exists>evs. trace (Program_exit P h B H w)
                 = trace w @ evs @ concat (map cleanupEvent (pathsToCleanup (st w)))
              \<and> filter isCleanup evs = []"
      using no_cleanup_in_exitInsertions [of w P h B H] by blast
    have tr: "tree (Program_exit P h B H w)
          = foldl (cleanupTree B)
              (unshiftContainer B Noop (addComment B (provenance P h (st w))
                 (forwardRefStep B (st w)
                    (reactStep B (st w)
                       (appendRuntimeImports H (st w) (preserveLeadingComments H (tree w)))))))
              (pathsToCleanup (st w))"
      using tree_exit_gate_open [OF gate, of P h B H] by (simp add: restOfExit_def)
    show "(\<exists>evs. trace (Program_exit P h B H w)
                 = trace w @ evs @ concat (map cleanupEvent (pathsToCleanup (st w)))
              \<and> filter isCleanup evs = [])
        \<and> tree (Program_exit P h B H w)
          = foldl (cleanupTree B)
              (unshiftContainer B Noop (addComment B (provenance P h (st w))
                 (forwardRefStep B (st w)
                    (reactStep B (st w)
                       (appendRuntimeImports H (st w) (preserveLeadingComments H (tree w)))))))
              (pathsToCleanup (st w))
        \<and> st (Program_exit P h B H w) = st w"
      using ex tr by simp
  qed
  have steps: "cleanupEvent (q, ''remove'') = [Remove q]"
    "cleanupEvent (q, ''replace'') = [ReplaceWith q NullLiteral]"
    "cleanupTree B t (q, ''remove'') = removePath B q t"
    "cleanupTree B t (q, ''replace'') = replaceWith B q NullLiteral t"
    "foldl (cleanupTree B) t (a # rest) = foldl (cleanupTree B) (cleanupTree B t a) rest"
    by (simp_all add: cleanupEvent_def cleanupTree_def)
  from quiet enqueue fifo steps show ?thesis by blast
qed

theorem cleanup_actions_witness:
  "compiledImports (st exampleWorld) \<noteq> None
   \<and> (\<exists>evs. trace (Program_exit (posix ''/proj'') exampleHost (logBabel []) logHandlers exampleWorld)
              = evs @ [ReplaceWith 3 NullLiteral, Remove 1, ReplaceWith 2 NullLiteral]
            \<and> filter isCleanup evs = [])
   \<and> tree (Program_exit (posix ''/proj'') exampleHost (logBabel []) logHandlers exampleWorld)
       = [PreserveLeadingComments, AppendRuntimeImports, UnshiftContainer ImportReactNamespace,
          UnshiftContainer ImportForwardRef,
          AddComment '' a.js generated by @compiled/babel-plugin v0.0.0 '',
          UnshiftContainer Noop,
          ReplaceWith 3 NullLiteral, Remove 1, ReplaceWith 2 NullLiteral]
   \<and> \<not> isCompiledCSSMapCallExpression (shapeIsCompiled exampleShape) (tree exampleWorld) 14
         (st exampleWorld)
   \<and> isCompiledUtil (shapeIsCompiled exampleShape) (tree exampleWorld) 14 (st exampleWorld)
   \<and> pathsToCleanup (st (TaggedTemplateExpression_CallExpression (shapeIsCompiled exampleShape)
         logHandlers 14 exampleWorld))
       = [(3, ''replace''), (1, ''remove''), (2, ''replace''), (14, ''replace'')]
   \<and> tree (TaggedTemplateExpression_CallExpression (shapeIsCompiled exampleShape)
         logHandlers 14 exampleWorld) = []"
proof -
  note th = cleanup_actions_applied_once_fifo_at_exit
    [where C = "shapeIsCompiled exampleShape" and H = logHandlers and p = 14
       and w = exampleWorld and P = "posix ''/proj''" and h = exampleHost
       and B = "logBabel []" and q = 0 and t = "[]" and a = "(0, ''remove'')" and rest = "[]"]
  have nomap: "\<not> isCompiledCSSMapCallExpression (shapeIsCompiled exampleShape)
      (tree exampleWorld) 14 (st exampleWorld)"
    by (simp add: shapeIsCompiled_def exampleShape_def)
  have plain: "\<not> hasStyles (shapeIsCompiled exampleShape) (tree exampleWorld) 14 (st exampleWorld)"
    by (simp add: hasStyles_def shapeIsCompiled_def exampleShape_def)
  have util: "isCompiledUtil (shapeIsCompiled exampleShape) (tree exampleWorld) 14
      (st exampleWorld)"
    by (simp add: isCompiledUtil_def shapeIsCompiled_def exampleShape_def)
  from th nomap plain util show ?thesis
    by (simp add: example_facts log_calls cleanupEvent_def cleanupTree_def reactStep_def
        forwardRefStep_def)
qed

section \<open>Strict order of the classification\<close>

text \<open>
  Claim C5. For a node whose classification the normalisation rewrite leaves unchanged:
  a cssMap call is handed to the cssMap handler (the state and the tree afterwards are
  what \<^verbatim>\<open>visitCssMapPath\<close> returns for the state and tree before) and nothing else is
  called; otherwise a css or keyframes construct gets exactly one \<^verbatim>\<open>replace\<close> action
  appended to the queue, the tree is only normalised (when the construct is a css one)
  and no handler is called; otherwise a styled construct is normalised and then handed
  to \<^verbatim>\<open>visitStyledPath\<close>, which receives the normalised tree; otherwise nothing happens.
\<close>

theorem call_visitor_classifies_in_strict_order:
  assumes stable:
    "hasStyles C (tree w) p (st w) \<Longrightarrow>
       isCompiledUtil C (normalizePropsUsage H p (tree w)) p (st w) = isCompiledUtil C (tree w) p (st w) \<and>
       isCompiledComponent C (normalizePropsUsage H p (tree w)) p (st w)
         = isCompiledComponent C (tree w) p (st w)"
  shows
    "(isCompiledCSSMapCallExpression C (tree w) p (st w) \<longrightarrow>
        (st (TaggedTemplateExpression_CallExpression C H p w),
         tree (TaggedTemplateExpression_CallExpression C H p w))
          = visitCssMapPath H p (st w, tree w)
        \<and> trace (TaggedTemplateExpression_CallExpression C H p w)
          = trace w @ [VisitCssMapPath p])
     \<and> (\<not> isCompiledCSSMapCallExpression C (tree w) p (st w) \<and> isCompiledUtil C (tree w) p (st w) \<longrightarrow>
        st (TaggedTemplateExpression_CallExpression C H p w)
          = (st w)\<lparr>pathsToCleanup := pathsToCleanup (st w) @ [(p, ''replace'')]\<rparr>
        \<and> tree (TaggedTemplateExpression_CallExpression C H p w)
          = (if hasStyles C (tree w) p (st w) then normalizePropsUsage H p (tree w) else tree w)
        \<and> trace (TaggedTemplateExpression_CallExpression C H p w)
          = trace w @ (if hasStyles C (tree w) p (st w) then [NormalizePropsUsage p] else []))
     \<and> (\<not> isCompiledCSSMapCallExpression C (tree w) p (st w) \<and> \<not> isCompiledUtil C (tree w) p (st w)
          \<and> isCompiledComponent C (tree w) p (st w) \<longrightarrow>
        (st (TaggedTemplateExpression_CallExpression C H p w),
         tree (TaggedTemplateExpression_CallExpression C H p w))
          = visitStyledPath H p (st w, normalizePropsUsage H p (tree w))
        \<and> trace (TaggedTemplateExpression_CallExpression C H p w)
          = trace w @ [NormalizePropsUsage p, VisitStyledPath p])
     \<and> (\<not> isCompiledCSSMapCallExpression C (tree w) p (st w) \<and> \<not> isCompiledUtil C (tree w) p (st w)
          \<and> \<not> isCompiledComponent C (tree w) p (st w) \<longrightarrow>
        TaggedTemplateExpression_CallExpression C H p w = w)"
proof -
  let ?V = "TaggedTemplateExpression_CallExpression C H p w"
  let ?t = "tree w" and ?s = "st w"
  let ?n = "mutate (NormalizePropsUsage p) (normalizePropsUsage H p) w"
  have util: "isCompiledUtil C (tree (normalizeIfStyled C H p w)) p ?s = isCompiledUtil C ?t p ?s"
    using stable by (simp add: tree_normalizeIfStyled)
  have comp: "isCompiledComponent C (tree (normalizeIfStyled C H p w)) p ?s
      = isCompiledComponent C ?t p ?s"
    using stable by (simp add: tree_normalizeIfStyled)
  have c1: "isCompiledCSSMapCallExpression C ?t p ?s \<longrightarrow>
        (st ?V, tree ?V) = visitCssMapPath H p (?s, ?t) \<and> trace ?V = trace w @ [VisitCssMapPath p]"
    by (simp add: TaggedTemplateExpression_CallExpression_def fields_delegate)
  have c2: "\<not> isCompiledCSSMapCallExpression C ?t p ?s \<and> isCompiledUtil C ?t p ?s \<longrightarrow>
        st ?V = ?s\<lparr>pathsToCleanup := pathsToCleanup ?s @ [(p, ''replace'')]\<rparr>
        \<and> tree ?V = (if hasStyles C ?t p ?s then normalizePropsUsage H p ?t else ?t)
        \<and> trace ?V = trace w @ (if hasStyles C ?t p ?s then [NormalizePropsUsage p] else [])"
    using util
    by (simp add: TaggedTemplateExpression_CallExpression_def Let_def tree_normalizeIfStyled)
       (simp add: normalizeIfStyled_def)
  have c3: "\<not> isCompiledCSSMapCallExpression C ?t p ?s \<and> \<not> isCompiledUtil C ?t p ?s
          \<and> isCompiledComponent C ?t p ?s \<longrightarrow>
        (st ?V, tree ?V) = visitStyledPath H p (?s, normalizePropsUsage H p ?t)
        \<and> trace ?V = trace w @ [NormalizePropsUsage p, VisitStyledPath p]"
  proof
    assume a: "\<not> isCompiledCSSMapCallExpression C ?t p ?s \<and> \<not> isCompiledUtil C ?t p ?s
          \<and> isCompiledComponent C ?t p ?s"
    then have hs: "hasStyles C ?t p ?s"
      by (simp add: component_hasStyles)
    have n: "normalizeIfStyled C H p w = ?n"
      using hs by (simp add: normalizeIfStyled_def)
    have "?V = delegate (VisitStyledPath p) (visitStyledPath H p) ?n"
      using a util comp by (simp add: TaggedTemplateExpression_CallExpression_def Let_def n)
    then show "(st ?V, tree ?V) = visitStyledPath H p (?s, normalizePropsUsage H p ?t)
        \<and> trace ?V = trace w @ [NormalizePropsUsage p, VisitStyledPath p]"
      using fields_delegate [of "VisitStyledPath p" "visitStyledPath H p" ?n] by simp
  qed
  have c4: "\<not> isCompiledCSSMapCallExpression C ?t p ?s \<and> \<not> isCompiledUtil C ?t p ?s
          \<and> \<not> isCompiledComponent C ?t p ?s \<longrightarrow> ?V = w"
    using util comp hasStyles_cases [of C ?t p ?s]
    by (auto simp add: TaggedTemplateExpression_CallExpression_def Let_def normalizeIfStyled_def)
  from c1 c2 c3 c4 show ?thesis by blast
qed

theorem call_visitor_witness:
  "hasStyles (shapeIsCompiled exampleShape) (tree exampleWorld) 12 (st exampleWorld)
   \<and> isCompiledUtil (shapeIsCompiled exampleShape)
        (normalizePropsUsage logHandlers 12 (tree exampleWorld)) 12 (st exampleWorld)
   \<and> isCompiledUtil (shapeIsCompiled exampleShape) (tree exampleWorld) 12 (st exampleWorld)
   \<and> \<not> isCompiledCSSMapCallExpression (shapeIsCompiled exampleShape) (tree exampleWorld) 12
         (st exampleWorld)
   \<and> pathsToCleanup (st (TaggedTemplateExpression_CallExpression (shapeIsCompiled exampleShape)
        logHandlers 12 exampleWorld))
       = [(3, ''replace''), (1, ''remove''), (2, ''replace''), (12, ''replace'')]
   \<and> tree (TaggedTemplateExpression_CallExpression (shapeIsCompiled exampleShape) logHandlers 12
        exampleWorld) = [NormalizePropsUsage 12]
   \<and> trace (TaggedTemplateExpression_CallExpression (shapeIsCompiled exampleShape) logHandlers 12
        exampleWorld) = [NormalizePropsUsage 12]
   \<and> isCompiledCSSMapCallExpression (shapeIsCompiled exampleShape) (tree exampleWorld) 11
        (st exampleWorld)
   \<and> tree (TaggedTemplateExpression_CallExpression (shapeIsCompiled exampleShape) logHandlers 11
        exampleWorld) = [VisitCssMapPath 11]
   \<and> trace (TaggedTemplateExpression_CallExpression (shapeIsCompiled exampleShape) logHandlers 11
        exampleWorld) = [VisitCssMapPath 11]
   \<and> isCompiledComponent (shapeIsCompiled exampleShape) (tree exampleWorld) 13 (st exampleWorld)
   \<and> tree (TaggedTemplateExpression_CallExpression (shapeIsCompiled exampleShape) logHandlers 13
        exampleWorld) = [NormalizePropsUsage 13, VisitStyledPath 13]
   \<and> trace (TaggedTemplateExpression_CallExpression (shapeIsCompiled exampleShape) logHandlers 13
        exampleWorld) = [NormalizePropsUsage 13, VisitStyledPath 13]
   \<and> TaggedTemplateExpression_CallExpression (shapeIsCompiled exampleShape) logHandlers 15
        exampleWorld = exampleWorld"
proof -
  let ?C = "shapeIsCompiled exampleShape"
  have stable: "hasStyles ?C (tree exampleWorld) p (st exampleWorld) \<Longrightarrow>
       isCompiledUtil ?C (normalizePropsUsage logHandlers p (tree exampleWorld)) p (st exampleWorld)
         = isCompiledUtil ?C (tree exampleWorld) p (st exampleWorld) \<and>
       isCompiledComponent ?C (normalizePropsUsage logHandlers p (tree exampleWorld)) p
           (st exampleWorld)
         = isCompiledComponent ?C (tree exampleWorld) p (st exampleWorld)" for p
    by (simp add: isCompiledUtil_def isCompiledComponent_def shapeIsCompiled_def)
  note css = call_visitor_classifies_in_strict_order [OF stable, of 12]
  note cssmap = call_visitor_classifies_in_strict_order [OF stable, of 11]
  note styled = call_visitor_classifies_in_strict_order [OF stable, of 13]
  note other = call_visitor_classifies_in_strict_order [OF stable, of 15]
  have shapes:
    "hasStyles ?C (tree exampleWorld) 12 (st exampleWorld)"
    "isCompiledUtil ?C (normalizePropsUsage logHandlers 12 (tree exampleWorld)) 12 (st exampleWorld)"
    "isCompiledUtil ?C (tree exampleWorld) 12 (st exampleWorld)"
    "\<not> isCompiledCSSMapCallExpression ?C (tree exampleWorld) 12 (st exampleWorld)"
    "isCompiledCSSMapCallExpression ?C (tree exampleWorld) 11 (st exampleWorld)"
    "\<not> isCompiledCSSMapCallExpression ?C (tree exampleWorld) 13 (st exampleWorld)"
    "\<not> isCompiledUtil ?C (tree exampleWorld) 13 (st exampleWorld)"
    "isCompiledComponent ?C (tree exampleWorld) 13 (st exampleWorld)"
    "\<not> isCompiledCSSMapCallExpression ?C (tree exampleWorld) 15 (st exampleWorld)"
    "\<not> isCompiledUtil ?C (tree exampleWorld) 15 (st exampleWorld)"
    "\<not> isCompiledComponent ?C (tree exampleWorld) 15 (st exampleWorld)"
    by (simp_all add: hasStyles_def isCompiledUtil_def isCompiledComponent_def
        shapeIsCompiled_def exampleShape_def)
  have ex: "pathsToCleanup (st exampleWorld)
      = [(3, ''replace''), (1, ''remove''), (2, ''replace'')]"
    "tree exampleWorld = []" "trace exampleWorld = []"
    by (simp_all add: exampleWorld_def exampleState_def)
  have hs: "normalizePropsUsage logHandlers p t = t @ [NormalizePropsUsage p]"
    "visitCssMapPath logHandlers p (s, t) = (s, t @ [VisitCssMapPath p])"
    "visitStyledPath logHandlers p (s, t) = (s, t @ [VisitStyledPath p])" for p t s
    by (simp_all add: logHandlers_def)
  from css cssmap styled other shapes show ?thesis
    by (simp add: ex hs)
qed

section \<open>The automatic React import\<close>

text \<open>
  Claim C9. The calls \<^verbatim>\<open>Program.exit\<close> makes extend the trace. With
  \<^verbatim>\<open>importReact: false\<close> the namespace import of React is not among them, and the tree
  returned is the rest of finalisation applied to the tree as the runtime imports left
  it. With the option unset or true, and finalisation running, the import is inserted
  once, in front of that tree, if neither pragma flag is set and \<^verbatim>\<open>React\<close> is not bound in
  the program scope at that point, and not at all otherwise; the rest of finalisation
  (which inserts only the forwardRef import, the comment and the separator, and
  applies the queue) follows.
\<close>

theorem react_import_gated_by_importReact:
  "trace (Program_exit P h B H w) = trace w @ newEvents w (Program_exit P h B H w)
   \<and> (opt_importReact (opts (st w)) = Some False \<longrightarrow>
        count_list (newEvents w (Program_exit P h B H w))
          (UnshiftContainer ImportReactNamespace) = 0)
   \<and> (opt_importReact (opts (st w)) = Some False \<and>
        (compiledImports (st w) \<noteq> None \<or> usesXcss (st w)) \<longrightarrow>
        tree (Program_exit P h B H w)
          = restOfExit P h B (st w)
              (appendRuntimeImports H (st w) (preserveLeadingComments H (tree w))))
   \<and> (opt_importReact (opts (st w)) \<noteq> Some False \<and>
        (compiledImports (st w) \<noteq> None \<or> usesXcss (st w)) \<longrightarrow>
        count_list (newEvents w (Program_exit P h B H w))
          (UnshiftContainer ImportReactNamespace)
          = (if \<not> pragma_jsxImportSource (st w) \<and> \<not> pragma_jsx (st w)
                \<and> \<not> getBinding B
                      (appendRuntimeImports H (st w) (preserveLeadingComments H (tree w)))
                      ''React''
             then 1 else 0)
        \<and> tree (Program_exit P h B H w)
          = restOfExit P h B (st w)
              (if \<not> pragma_jsxImportSource (st w) \<and> \<not> pragma_jsx (st w)
                  \<and> \<not> getBinding B
                        (appendRuntimeImports H (st w) (preserveLeadingComments H (tree w)))
                        ''React''
               then unshiftContainer B ImportReactNamespace
                      (appendRuntimeImports H (st w) (preserveLeadingComments H (tree w)))
               else appendRuntimeImports H (st w) (preserveLeadingComments H (tree w))))"
proof -
  let ?react = "UnshiftContainer ImportReactNamespace"
  let ?t2 = "appendRuntimeImports H (st w) (preserveLeadingComments H (tree w))"
  have ins: "count_list (newEvents w (exitInsertions P h B H w)) ?react
     = (if \<not> pragma_jsxImportSource (st w) \<and> \<not> pragma_jsx (st w)
           \<and> opt_importReact (opts (st w)) \<noteq> Some False
           \<and> \<not> getBinding B ?t2 ''React''
        then 1 else 0)"
    by (auto simp add: exitInsertions_def Let_def newEvents_def split: option.splits)
  have cl: "count_list (concat (map cleanupEvent q)) ?react = 0" for q
    by (induction q) (auto simp add: cleanupEvent_def)
  show ?thesis
  proof (cases "compiledImports (st w) \<noteq> None \<or> usesXcss (st w)")
    case True
    have tr: "tree (Program_exit P h B H w) = restOfExit P h B (st w) (reactStep B (st w) ?t2)"
      using tree_exit_gate_open [OF True, of P h B H] .
    show ?thesis
      using trace_exit_extends [of P h B H w] True
      by (simp add: newEvents_exit [OF True] ins cl tr reactStep_def)
  next
    case False
    then have "compiledImports (st w) = None \<and> \<not> usesXcss (st w)" by simp
    then show ?thesis
      using trace_exit_extends [of P h B H w] by (simp add: newEvents_exit_skip)
  qed
qed

theorem react_import_witness:
  "opt_importReact (opts (st exampleWorld)) \<noteq> Some False
   \<and> compiledImports (st exampleWorld) \<noteq> None
   \<and> count_list (newEvents exampleWorld
        (Program_exit (posix ''/proj'') exampleHost (logBabel []) logHandlers exampleWorld))
        (UnshiftContainer ImportReactNamespace) = 1
   \<and> tree (Program_exit (posix ''/proj'') exampleHost (logBabel []) logHandlers exampleWorld)
       = [PreserveLeadingComments, AppendRuntimeImports, UnshiftContainer ImportReactNamespace,
          UnshiftContainer ImportForwardRef,
          AddComment '' a.js generated by @compiled/babel-plugin v0.0.0 '',
          UnshiftContainer Noop,
          ReplaceWith 3 NullLiteral, Remove 1, ReplaceWith 2 NullLiteral]
   \<and> count_list (newEvents exampleWorld
        (Program_exit (posix ''/proj'') exampleHost (logBabel [''React'']) logHandlers exampleWorld))
        (UnshiftContainer ImportReactNamespace) = 0
   \<and> tree (Program_exit (posix ''/proj'') exampleHost (logBabel [''React'']) logHandlers
        exampleWorld)
       = [PreserveLeadingComments, AppendRuntimeImports, UnshiftContainer ImportForwardRef,
          AddComment '' a.js generated by @compiled/babel-plugin v0.0.0 '',
          UnshiftContainer Noop,
          ReplaceWith 3 NullLiteral, Remove 1, ReplaceWith 2 NullLiteral]
   \<and> opt_importReact (opts (st exampleWorldNoReact)) = Some False
   \<and> count_list (newEvents exampleWorldNoReact
        (Program_exit (posix ''/proj'') exampleHost (logBabel []) logHandlers exampleWorldNoReact))
        (UnshiftContainer ImportReactNamespace) = 0
   \<and> tree (Program_exit (posix ''/proj'') exampleHost (logBabel []) logHandlers
        exampleWorldNoReact)
       = [PreserveLeadingComments, AppendRuntimeImports, UnshiftContainer ImportForwardRef,
          AddComment '' a.js generated by @compiled/babel-plugin v0.0.0 '',
          UnshiftContainer Noop,
          ReplaceWith 3 NullLiteral, Remove 1, ReplaceWith 2 NullLiteral]"
proof -
  note on = react_import_gated_by_importReact
    [where w = exampleWorld and P = "posix ''/proj''" and h = exampleHost
       and B = "logBabel []" and H = logHandlers]
  note bound = react_import_gated_by_importReact
    [where w = exampleWorld and P = "posix ''/proj''" and h = exampleHost
       and B = "logBabel [''React'']" and H = logHandlers]
  note off = react_import_gated_by_importReact
    [where w = exampleWorldNoReact and P = "posix ''/proj''" and h = exampleHost
       and B = "logBabel []" and H = logHandlers]
  from on bound off show ?thesis
    by (simp add: example_facts example_noreact_facts log_calls restOfExit_def
        forwardRefStep_def cleanupTree_def)
qed

section \<open>Recognising the module specifier of an import\<close>

text \<open>\<^verbatim>\<open>pre\<close> builds the list of recognised origins and never changes it afterwards.\<close>

lemma pre_importSources:
  "pre P req dir fname options m = (Inr s, m') \<Longrightarrow>
   importSources s = DEFAULT_IMPORT_SOURCE # configuredOrigins P options dir
   \<and> opts s = options \<and> cwd s = dir \<and> filename s = fname \<and> compiledImports s = None"
  by (auto simp add: pre_def Let_def new_Cache_def split: option.splits resolverOption.splits if_splits prod.splits)

lemma pre_stylesState:
  "fst (pre (posix ''/proj'') (\<lambda>spec root. None) ''/proj'' (Some ''/proj/src/app/a.js'') stylesOpts
     freshModule) = Inr stylesState"
  by (simp add: pre_def noOpts_def stylesOpts_def freshModule_def new_Cache_def initialize_def exampleState_def stylesState_def
      configuredOrigins_def DEFAULT_IMPORT_SOURCE_def qualifyOrigin_def rootPath_def firstCharIsDot_def posix_def)
     code_simp

lemma pre_relativeRootState:
  "fst (pre (posix ''/proj'') (\<lambda>spec root. None) ''/proj'' None relativeRootOpts
     freshModule) = Inr relativeRootState"
  by (simp add: pre_def noOpts_def relativeRootOpts_def freshModule_def new_Cache_def initialize_def exampleState_def relativeRootState_def
      configuredOrigins_def DEFAULT_IMPORT_SOURCE_def qualifyOrigin_def rootPath_def firstCharIsDot_def posix_def)
     code_simp

lemma matchesOrigin_iff:
  "matchesOrigin P s u origin \<longleftrightarrow>
     u = DEFAULT_IMPORT_SOURCE \<or> origin = u \<or>
     (\<exists>f. filename s = Some f \<and> f \<noteq> [] \<and> firstCharIsDot u \<and>
          endsWith u (basename P origin) \<and> resolve P (dirname P f) u = origin)"
  by (auto simp add: matchesOrigin_def Let_def split: option.splits)

lemma isCompiledModule_iff:
  "isCompiledModule P s u \<longleftrightarrow> (\<exists>origin \<in> set (importSources s). matchesOrigin P s u origin)"
  by (simp add: isCompiledModule_def list_ex_iff)

lemma posix_resolve_absolute:
  "isAbsolute dir \<Longrightarrow> \<exists>r. posix_resolve dir a b = CHR ''/'' # r"
  by (auto simp add: posix_resolve_def resolveStep_def isAbsolute_def Let_def split: list.splits if_splits)

lemma posix_resolve_not_default:
  "posix_resolve ''/proj'' d u \<noteq> DEFAULT_IMPORT_SOURCE"
  using posix_resolve_absolute [of "''/proj''" d u]
  by (auto simp add: isAbsolute_def DEFAULT_IMPORT_SOURCE_def)

lemma styles_sources:
  "importSources stylesState
     = DEFAULT_IMPORT_SOURCE # configuredOrigins (posix ''/proj'') (opts stylesState) (cwd stylesState)"
  "configuredOrigins (posix ''/proj'') (opts stylesState) (cwd stylesState) = [''/proj/src/styles'']"
  "filename stylesState = Some ''/proj/src/app/a.js''"
  by (simp_all add: stylesState_def exampleState_def stylesOpts_def noOpts_def
      configuredOrigins_def DEFAULT_IMPORT_SOURCE_def qualifyOrigin_def rootPath_def
      firstCharIsDot_def posix_def) code_simp+

text \<open>
  Claim C3. In a state whose \<open>importSources\<close> is as \<^verbatim>\<open>pre\<close> built it (the default origin
  followed by the configured origins, relative ones joined with the root), and with a
  \<^verbatim>\<open>resolve\<close> that never returns the default origin string (it returns absolute paths), a
  module specifier is recognised if and only if it is the default origin, or equals a
  configured origin, or the file has a name, the specifier starts with a dot, ends with
  the base name of a configured origin and resolves, against the directory of the
  file, to that origin. In the last case the origin itself is recognised too, and the
  visitor leaves the same state and the same specifiers as for a direct import of it.
\<close>

theorem module_specifier_recognition:
  assumes srcs: "importSources s = DEFAULT_IMPORT_SOURCE # configuredOrigins P (opts s) (cwd s)"
      and abs: "\<And>d. resolve P d u \<noteq> DEFAULT_IMPORT_SOURCE"
  shows "(isCompiledModule P s u \<longleftrightarrow>
           u = DEFAULT_IMPORT_SOURCE \<or> u \<in> set (configuredOrigins P (opts s) (cwd s)) \<or>
           (\<exists>f. filename s = Some f \<and> f \<noteq> [] \<and> firstCharIsDot u \<and>
                (\<exists>origin \<in> set (configuredOrigins P (opts s) (cwd s)).
                    endsWith u (basename P origin) \<and> resolve P (dirname P f) u = origin)))
         \<and> (\<forall>f origin. filename s = Some f \<and> f \<noteq> [] \<and> firstCharIsDot u \<and>
                origin \<in> set (configuredOrigins P (opts s) (cwd s)) \<and>
                endsWith u (basename P origin) \<and> resolve P (dirname P f) u = origin \<longrightarrow>
              isCompiledModule P s u \<and> isCompiledModule P s origin \<and>
              fst (ImportDeclaration P s \<lparr>source = u, specifiers = sps\<rparr>)
                = fst (ImportDeclaration P s \<lparr>source = origin, specifiers = sps\<rparr>) \<and>
              map_option specifiers (snd (ImportDeclaration P s \<lparr>source = u, specifiers = sps\<rparr>))
                = map_option specifiers
                    (snd (ImportDeclaration P s \<lparr>source = origin, specifiers = sps\<rparr>)))"
proof -
  let ?cfg = "configuredOrigins P (opts s) (cwd s)"
  have iff: "isCompiledModule P s u \<longleftrightarrow>
           u = DEFAULT_IMPORT_SOURCE \<or> u \<in> set ?cfg \<or>
           (\<exists>f. filename s = Some f \<and> f \<noteq> [] \<and> firstCharIsDot u \<and>
                (\<exists>origin \<in> set ?cfg.
                    endsWith u (basename P origin) \<and> resolve P (dirname P f) u = origin))"
    unfolding isCompiledModule_iff srcs matchesOrigin_iff using abs by auto
  have direct: "origin \<in> set ?cfg \<Longrightarrow> isCompiledModule P s origin" for origin
    unfolding isCompiledModule_iff srcs matchesOrigin_iff by auto
  have same: "isCompiledModule P s u \<Longrightarrow> isCompiledModule P s origin \<Longrightarrow>
      fst (ImportDeclaration P s \<lparr>source = u, specifiers = sps\<rparr>)
                = fst (ImportDeclaration P s \<lparr>source = origin, specifiers = sps\<rparr>) \<and>
      map_option specifiers (snd (ImportDeclaration P s \<lparr>source = u, specifiers = sps\<rparr>))
                = map_option specifiers
                    (snd (ImportDeclaration P s \<lparr>source = origin, specifiers = sps\<rparr>))" for origin
    by (simp add: ImportDeclaration_def Let_def split: prod.splits)
  show ?thesis
    using iff direct same by blast
qed

theorem module_specifier_recognition_witness:
  "importSources stylesState
     = DEFAULT_IMPORT_SOURCE # configuredOrigins (posix ''/proj'') (opts stylesState) (cwd stylesState)
   \<and> (\<forall>d. resolve (posix ''/proj'') d ''../styles'' \<noteq> DEFAULT_IMPORT_SOURCE)
   \<and> filename stylesState = Some ''/proj/src/app/a.js''
   \<and> firstCharIsDot ''../styles''
   \<and> ''/proj/src/styles'' \<in> set (configuredOrigins (posix ''/proj'') (opts stylesState) (cwd stylesState))
   \<and> endsWith ''../styles'' (basename (posix ''/proj'') ''/proj/src/styles'')
   \<and> resolve (posix ''/proj'') (dirname (posix ''/proj'') ''/proj/src/app/a.js'') ''../styles''
       = ''/proj/src/styles''
   \<and> isCompiledModule (posix ''/proj'') stylesState ''../styles''
   \<and> isCompiledModule (posix ''/proj'') stylesState ''/proj/src/styles''
   \<and> \<not> isCompiledModule (posix ''/proj'') stylesState ''../other''"
proof -
  let ?P = "posix ''/proj''"
  have nd: "resolve ?P d u \<noteq> DEFAULT_IMPORT_SOURCE" for d u
    by (simp add: posix_def posix_resolve_not_default)
  note yes = module_specifier_recognition [OF styles_sources(1) nd, of "''../styles''" "[]"]
  note no = module_specifier_recognition [OF styles_sources(1) nd, of "''../other''" "[]"]
  have dot: "firstCharIsDot ''../styles''"
    by (simp add: firstCharIsDot_def)
  have ends: "endsWith ''../styles'' (basename ?P ''/proj/src/styles'')"
    by (simp add: posix_def) code_simp
  have notends: "\<not> endsWith ''../other'' (basename ?P ''/proj/src/styles'')"
    by (simp add: posix_def) code_simp
  have res: "resolve ?P (dirname ?P ''/proj/src/app/a.js'') ''../styles'' = ''/proj/src/styles''"
    by (simp add: posix_def) code_simp
  have other: "''../other'' \<noteq> DEFAULT_IMPORT_SOURCE" "''../other'' \<noteq> ''/proj/src/styles''"
    by (simp_all add: DEFAULT_IMPORT_SOURCE_def)
  from yes have "isCompiledModule ?P stylesState ''../styles''"
    "isCompiledModule ?P stylesState ''/proj/src/styles''"
    using dot ends res by (simp_all add: styles_sources)
  moreover from no have "\<not> isCompiledModule ?P stylesState ''../other''"
    using other notends by (simp add: styles_sources)
  ultimately show ?thesis
    using nd dot ends res by (simp add: styles_sources)
qed

section \<open>Compilations without a file name\<close>

lemma posix_join_absolute: "isAbsolute a \<Longrightarrow> isAbsolute (posix_join a b)"
proof -
  assume a: "isAbsolute a"
  then obtain r where r: "a = CHR ''/'' # r"
    by (auto simp add: isAbsolute_def split: list.splits)
  have abs: "isAbsolute p \<Longrightarrow> isAbsolute (posix_normalize p)" for p
    by (auto simp add: posix_normalize_def isAbsolute_def Let_def split: list.splits)
  have "isAbsolute (joinSlash (filter (\<lambda>x. x \<noteq> []) [a, b]))"
    by (simp add: r isAbsolute_def)
  then show ?thesis
    by (simp add: posix_join_def Let_def r abs)
qed

lemma configured_not_relative:
  assumes "\<And>origin. \<not> firstCharIsDot (join P (rootPath options dir) origin)"
  shows "\<forall>origin \<in> set (configuredOrigins P options dir). \<not> firstCharIsDot origin"
  using assms by (auto simp add: configuredOrigins_def qualifyOrigin_def split: option.splits)

lemma nofile_sources:
  "importSources (stylesState\<lparr>filename := None\<rparr>)
     = DEFAULT_IMPORT_SOURCE
       # configuredOrigins (posix ''/proj'') (opts (stylesState\<lparr>filename := None\<rparr>))
           (cwd (stylesState\<lparr>filename := None\<rparr>))"
  using styles_sources(1) by simp

text \<open>
  Claim C10. Babel hands the plugin an absolute root, and joining a path to an absolute
  root gives an absolute path; the hypothesis on the root says as much as is needed:
  no path joined to the root starts with a dot. Then, whatever origins are configured,
  a compilation without a file name (undefined or empty) recognises no specifier that
  starts with a dot, and it recognises a specifier if and only if it is the default
  origin or is literally one of the configured origins as \<^verbatim>\<open>pre\<close> stored them.
\<close>

theorem no_filename_relative_never_recognised:
  assumes nofile: "\<not> truthy (filename s)"
      and srcs: "importSources s = DEFAULT_IMPORT_SOURCE # configuredOrigins P (opts s) (cwd s)"
      and absroot: "\<And>origin. \<not> firstCharIsDot (join P (rootPath (opts s) (cwd s)) origin)"
  shows "(firstCharIsDot u \<longrightarrow> \<not> isCompiledModule P s u)
         \<and> (isCompiledModule P s u \<longleftrightarrow>
              u = DEFAULT_IMPORT_SOURCE \<or> u \<in> set (configuredOrigins P (opts s) (cwd s)))"
proof -
  have iff: "isCompiledModule P s u \<longleftrightarrow>
            u = DEFAULT_IMPORT_SOURCE \<or> u \<in> set (configuredOrigins P (opts s) (cwd s))"
    unfolding isCompiledModule_iff srcs matchesOrigin_iff
    using nofile by (auto simp add: truthy_def)
  have nd: "firstCharIsDot u \<Longrightarrow> u \<noteq> DEFAULT_IMPORT_SOURCE"
    by (auto simp add: firstCharIsDot_def DEFAULT_IMPORT_SOURCE_def)
  have "firstCharIsDot u \<Longrightarrow> u \<notin> set (configuredOrigins P (opts s) (cwd s))"
    using configured_not_relative [OF absroot] by blast
  then show ?thesis
    using iff nd by blast
qed

theorem no_filename_witness:
  "\<not> truthy (filename (stylesState\<lparr>filename := None\<rparr>))
   \<and> importSources (stylesState\<lparr>filename := None\<rparr>)
       = DEFAULT_IMPORT_SOURCE
         # configuredOrigins (posix ''/proj'') (opts (stylesState\<lparr>filename := None\<rparr>))
             (cwd (stylesState\<lparr>filename := None\<rparr>))
   \<and> (\<forall>origin. \<not> firstCharIsDot
         (join (posix ''/proj'')
            (rootPath (opts (stylesState\<lparr>filename := None\<rparr>))
               (cwd (stylesState\<lparr>filename := None\<rparr>))) origin))
   \<and> firstCharIsDot ''../styles''
   \<and> isCompiledModule (posix ''/proj'') stylesState ''../styles''
   \<and> \<not> isCompiledModule (posix ''/proj'') (stylesState\<lparr>filename := None\<rparr>) ''../styles''
   \<and> isCompiledModule (posix ''/proj'') (stylesState\<lparr>filename := None\<rparr>) ''/proj/src/styles''
   \<and> isCompiledModule (posix ''/proj'') (stylesState\<lparr>filename := None\<rparr>) ''@compiled/react''"
proof -
  let ?s = "stylesState\<lparr>filename := None\<rparr>"
  let ?P = "posix ''/proj''"
  have nofile: "\<not> truthy (filename ?s)"
    by (simp add: truthy_def)
  have root: "rootPath (opts stylesState) (cwd stylesState) = ''/proj''"
    by (simp add: rootPath_def stylesState_def stylesOpts_def noOpts_def exampleState_def)
  have absroot: "\<not> firstCharIsDot (join ?P (rootPath (opts ?s) (cwd ?s)) origin)" for origin
    using posix_join_absolute [of "''/proj''" origin]
    by (auto simp add: root posix_def isAbsolute_def firstCharIsDot_def split: list.splits)
  note rel = no_filename_relative_never_recognised [OF nofile nofile_sources absroot, of "''../styles''"]
  note ab = no_filename_relative_never_recognised [OF nofile nofile_sources absroot, of "''/proj/src/styles''"]
  note def = no_filename_relative_never_recognised [OF nofile nofile_sources absroot, of "''@compiled/react''"]
  have dot: "firstCharIsDot ''../styles''"
    by (simp add: firstCharIsDot_def)
  have withfile: "isCompiledModule ?P stylesState ''../styles''"
    by code_simp
  from rel ab def nofile dot absroot withfile show ?thesis
    using nofile_sources by (simp add: styles_sources(2) DEFAULT_IMPORT_SOURCE_def)
qed

text \<open>
  The hypothesis on the root is needed for the first part only. Were the root the
  relative path \<^verbatim>\<open>.\<close> and \<^verbatim>\<open>../styles\<close> a configured origin, \<^verbatim>\<open>pre\<close> would store the
  origin as \<^verbatim>\<open>../styles\<close>, and the exact comparison would accept that specifier.
\<close>

lemma relative_root_keeps_relative_origin:
  "fst (pre (posix ''/proj'') (\<lambda>spec root. None) ''/proj'' None relativeRootOpts freshModule)
     = Inr relativeRootState
   \<and> filename relativeRootState = None
   \<and> firstCharIsDot (join (posix ''/proj'') ''.'' ''../styles'')
   \<and> isCompiledModule (posix ''/proj'') relativeRootState ''../styles''"
  by (simp add: pre_relativeRootState) code_simp

section \<open>Recording and stripping the API imports\<close>

lemma enableApi_removed [simp]: "enableApi (m, None) a = (m, None)"
  by (simp add: enableApi_def split: option.splits)














section \<open>The pragma comments and the xcss scan\<close>

lemma units_simps [simp]: "units [] = []" "units (c # cs) = of_char c # units cs"
  by (simp_all add: units_def)

lemma regex_examples:
  "JSX_ANNOTATION_REGEX (units ''* @jsx jsx '') = Some (units ''jsx'')"
  "JSX_ANNOTATION_REGEX (units ''* @jsx'' @ [0xA0] @ units ''jsx '') = Some (units ''jsx'')"
  "JSX_ANNOTATION_REGEX (units ''* @jsx h '') = Some (units ''h'')"
  "JSX_SOURCE_ANNOTATION_REGEX (units ''* @jsx h '') = None"
  by (simp_all add: JSX_ANNOTATION_REGEX_def JSX_SOURCE_ANNOTATION_REGEX_def annotationAt_def
      isSpace_def Let_def)

lemma scanComment_frame [simp]:
  "opts (scanComment s c) = opts s" "usesXcss (scanComment s c) = usesXcss s"
  by (simp_all add: scanComment_def Let_def)

lemma scanComments_frame [simp]:
  "opts (foldl scanComment s cs) = opts s" "usesXcss (foldl scanComment s cs) = usesXcss s"
  by (induction cs arbitrary: s) simp_all

lemma pragma_jsx_scanComment:
  "pragma_jsx (scanComment s c) \<longleftrightarrow> pragma_jsx s \<or> JSX_ANNOTATION_REGEX c = Some (units ''jsx'')"
  by (simp add: scanComment_def Let_def)

lemma pragma_jsx_scanComments:
  "pragma_jsx (foldl scanComment s cs)
     \<longleftrightarrow> pragma_jsx s \<or> (\<exists>c \<in> set cs. JSX_ANNOTATION_REGEX c = Some (units ''jsx''))"
  by (induction cs arbitrary: s) (auto simp add: pragma_jsx_scanComment)

text \<open>
  Claim C6, as amended. After \<^verbatim>\<open>Program.enter\<close> the flag \<^verbatim>\<open>pragma.jsx\<close> is set if and only if
  it was set before or some comment of the file matches the generic pragma pattern
  with the captured value \<^verbatim>\<open>jsx\<close>. A match that captures another value does not set it.
\<close>

theorem generic_pragma_flag_needs_capture_jsx:
  "pragma_jsx (Program_enter f s)
     \<longleftrightarrow> pragma_jsx s \<or>
         (\<exists>cs. comments f = Some cs \<and>
               (\<exists>c \<in> set cs. JSX_ANNOTATION_REGEX c = Some (units ''jsx'')))"
  by (cases "comments f") (simp_all add: Program_enter_def Let_def pragma_jsx_scanComments)

theorem generic_pragma_flag_witness:
  "JSX_ANNOTATION_REGEX (units ''* @jsx jsx '') = Some (units ''jsx'')
   \<and> \<not> pragma_jsx exampleState
   \<and> pragma_jsx (Program_enter jsxPragmaFile exampleState)
   \<and> JSX_ANNOTATION_REGEX (units ''* @jsx'' @ [0xA0] @ units ''jsx '') = Some (units ''jsx'')
   \<and> pragma_jsx (Program_enter nbspPragmaFile exampleState)"
proof -
  have m: "JSX_ANNOTATION_REGEX (units ''* @jsx jsx '') = Some (units ''jsx'')"
    "JSX_ANNOTATION_REGEX (units ''* @jsx'' @ [0xA0] @ units ''jsx '') = Some (units ''jsx'')"
    by (rule regex_examples)+
  have c: "comments jsxPragmaFile = Some [units '' eslint-disable '', units ''* @jsx jsx '']"
    "comments nbspPragmaFile = Some [units ''* @jsx'' @ [0xA0] @ units ''jsx '']"
    by (simp_all add: jsxPragmaFile_def nbspPragmaFile_def)
  have e1: "\<exists>cs. comments jsxPragmaFile = Some cs \<and>
               (\<exists>c \<in> set cs. JSX_ANNOTATION_REGEX c = Some (units ''jsx''))"
    using m(1) c(1) by simp
  have e2: "\<exists>cs. comments nbspPragmaFile = Some cs \<and>
               (\<exists>c \<in> set cs. JSX_ANNOTATION_REGEX c = Some (units ''jsx''))"
    using m(2) c(2) by simp
  have n: "\<not> pragma_jsx exampleState"
    by (simp add: exampleState_def)
  show ?thesis
    using generic_pragma_flag_needs_capture_jsx [of jsxPragmaFile exampleState]
      generic_pragma_flag_needs_capture_jsx [of nbspPragmaFile exampleState] e1 e2 m n
    by blast
qed

text \<open>
  The claim as first stated fails: the comment \<^verbatim>\<open>/** @jsx h */\<close> matches the pattern,
  capturing \<^verbatim>\<open>h\<close>, and the flag stays unset.
\<close>

theorem generic_pragma_other_value_counterexample:
  "JSX_ANNOTATION_REGEX (units ''* @jsx h '') = Some (units ''h'')
   \<and> comments hPragmaFile = Some [units ''* @jsx h '']
   \<and> \<not> pragma_jsx (Program_enter hPragmaFile exampleState)"
  using regex_examples(3,4)
  by (simp add: hPragmaFile_def Program_enter_def scanComment_def Let_def exampleState_def)

text \<open>
  Claim C7, as amended. After \<^verbatim>\<open>Program.enter\<close> the flag \<open>usesXcss\<close> is set if and only if
  it was set before, or \<^verbatim>\<open>processXcss\<close> is enabled (unset counts as enabled) and the file
  text contains \<^verbatim>\<open>xcss={\<close> or \<^verbatim>\<open>Xcss={\<close>. Only the first letter may be in either case.
\<close>

theorem xcss_scan_is_two_literal_spellings:
  "usesXcss (Program_enter f s)
     \<longleftrightarrow> usesXcss s \<or>
         (processXcss (opts s) \<and> (sublist ''xcss={'' (code f) \<or> sublist ''Xcss={'' (code f)))"
  by (cases "comments f") (auto simp add: Program_enter_def Let_def xcssRegexTest_def)

theorem xcss_scan_witness:
  "processXcss (opts exampleState) \<and> \<not> usesXcss exampleState
   \<and> sublist ''Xcss={'' (code iconXcssFile)
   \<and> usesXcss (Program_enter iconXcssFile exampleState)
   \<and> \<not> usesXcss (Program_enter iconXcssFile
          (exampleState\<lparr>opts := noOpts\<lparr>opt_processXcss := Some False\<rparr>\<rparr>))"
proof -
  have p: "processXcss (opts exampleState)" "\<not> usesXcss exampleState"
    "\<not> processXcss (opts (exampleState\<lparr>opts := noOpts\<lparr>opt_processXcss := Some False\<rparr>\<rparr>))"
    "\<not> usesXcss (exampleState\<lparr>opts := noOpts\<lparr>opt_processXcss := Some False\<rparr>\<rparr>)"
    by (simp_all add: processXcss_def exampleState_def noOpts_def)
  have m: "sublist ''Xcss={'' (code iconXcssFile)"
    by code_simp
  show ?thesis
    using xcss_scan_is_two_literal_spellings [of iconXcssFile exampleState]
      xcss_scan_is_two_literal_spellings
        [of iconXcssFile "exampleState\<lparr>opts := noOpts\<lparr>opt_processXcss := Some False\<rparr>\<rparr>"]
      p m
    by simp
qed

text \<open>
  The claim as first stated fails: the scan is not case-insensitive. The text
  \<^verbatim>\<open><Box XCSS={styles} />\<close> does not set the flag.
\<close>

theorem xcss_upper_case_counterexample:
  "processXcss (opts exampleState)
   \<and> code upperXcssFile = ''<Box XCSS={styles} />''
   \<and> \<not> usesXcss (Program_enter upperXcssFile exampleState)"
  by code_simp

section \<open>The module-level cache\<close>

text \<open>Every run of \<^verbatim>\<open>pre\<close> constructs a Cache of its own, whatever the options say.\<close>

lemma pre_cache_is_fresh:
  "cacheOfRun (pre P req dir fname options m) = Some c \<Longrightarrow> c = length (heap m)"
  by (auto simp add: cacheOfRun_def pre_def Let_def new_Cache_def
      split: option.splits resolverOption.splits if_splits prod.splits sum.splits)

lemma pre_heap_grows:
  "length (heap (snd (pre P req dir fname options m))) = Suc (length (heap m))"
  by (auto simp add: pre_def Let_def new_Cache_def initialize_def
      split: option.splits resolverOption.splits if_splits prod.splits)

text \<open>
  Claim C8. Two compilations in one process, both with \<^verbatim>\<open>cache: true\<close>: the first stores
  Cache 0 in its state and in \<^verbatim>\<open>globalCache\<close>; the second constructs Cache 1, assigns it
  to \<^verbatim>\<open>globalCache\<close> and stores it in its state. The two states hold different instances.
\<close>

theorem shared_cache_is_replaced_by_second_run:
  "opt_cache cacheOpts = Some True
   \<and> cacheOfRun firstRun = Some 0 \<and> globalCache (snd firstRun) = Some 0
   \<and> cacheOfRun secondRun = Some 1 \<and> globalCache (snd secondRun) = Some 1
   \<and> cacheOfRun firstRun \<noteq> cacheOfRun secondRun"
  by code_simp

end
